theory Spec2Isabelle
  imports Main "HOL-Library.Multiset"
begin

section \<open>Data model of the anti-spam client\<close>

text \<open>
  The model follows \<^verbatim>\<open>src/index.ts\<close>. Discord snowflakes are strings. JavaScript numbers
  that hold thresholds, intervals and timestamps are modelled as unbounded integers
  (the source only compares, subtracts and multiplies them). The model and the code agree
  as long as these values and their products stay below \<open>2 ^ 53\<close> in size, where
  JavaScript numbers are exact; the product in \<open>unMuteTime\<close> is the only place where a
  larger input would be rounded by the code.
\<close>

type_synonym Snowflake = string

type_synonym Permission = string

text \<open>Interface \<^verbatim>\<open>CachedMessage\<close>.\<close>

record CachedMessage =
  messageID :: Snowflake
  guildID :: Snowflake
  authorID :: Snowflake
  channelID :: Snowflake
  content :: string
  sentTimestamp :: int

text \<open>
  The field \<^verbatim>\<open>cache\<close> of the class \<^verbatim>\<open>AntiSpamClient\<close>: the message list and three
  lists of sanctioned users. The class declares no list of muted users.
\<close>

record AntiSpamCache =
  messages :: "CachedMessage list"
  warnedUsers :: "Snowflake list"
  kickedUsers :: "Snowflake list"
  bannedUsers :: "Snowflake list"

text \<open>
  The parts of the discord.js objects that the detection code reads. \<open>permissions_has\<close> is
  \<^verbatim>\<open>member.permissions.has\<close>; \<open>member_highestPosition\<close> is
  \<^verbatim>\<open>member.roles.highest?.position\<close>; \<open>members_me\<close> is \<^verbatim>\<open>guild.members.me\<close>.
\<close>

record Role =
  role_id :: Snowflake
  role_name :: string

record GuildMember =
  member_id :: Snowflake
  member_roles :: "Role list"
  member_highestPosition :: "int option"
  permissions_has :: "Permission \<Rightarrow> bool"
  bannable :: bool
  kickable :: bool

record Me =
  me_hasModerateMembers :: bool
  me_highestPosition :: int

record Guild =
  guild_id :: Snowflake
  ownerId :: Snowflake
  members_me :: "Me option"

record User =
  user_id :: Snowflake
  user_bot :: bool

record Channel =
  channel_id :: Snowflake
  isGuildText :: bool

record Message =
  msg_id :: Snowflake
  msg_guild :: "Guild option"
  msg_author :: User
  msg_clientUserId :: Snowflake
  msg_member :: "GuildMember option"
  msg_channel :: Channel
  msg_content :: string
  createdTimestamp :: int

text \<open>The argument of \<^verbatim>\<open>userleave\<close>: \<^verbatim>\<open>member.guild\<close> and \<^verbatim>\<open>member.user.id\<close>.\<close>

record LeavingMember =
  leaving_guild :: Guild
  leaving_userId :: Snowflake

text \<open>An ignore option is either a list of ids or a predicate function.\<close>

datatype 'a Ignored = IdList "Snowflake list" | IgnoreFunction "'a \<Rightarrow> bool"

text \<open>
  The resolved \<^verbatim>\<open>this.options\<close>, restricted to the fields that the detection and
  sanction code reads (message templates and embed texts are left out).
\<close>

record Options =
  warnThreshold :: int
  muteThreshold :: int
  kickThreshold :: int
  banThreshold :: int
  maxInterval :: int
  maxDuplicatesInterval :: int
  maxDuplicatesWarn :: int
  maxDuplicatesMute :: int
  maxDuplicatesKick :: int
  maxDuplicatesBan :: int
  unMuteTime :: int
  modLogsEnabled :: bool
  errorMessages :: bool
  ignoredMembers :: "GuildMember Ignored"
  ignoredRoles :: "Role Ignored"
  ignoredGuilds :: "Guild Ignored"
  ignoredChannels :: "Channel Ignored"
  ignoredPermissions :: "Permission list"
  ignoreBots :: bool
  warnEnabled :: bool
  ipwarnEnabled :: bool
  kickEnabled :: bool
  muteEnabled :: bool
  banEnabled :: bool
  deleteMessagesAfterBanForPastDays :: int
  debug :: bool
  removeMessages :: bool

text \<open>The constructor argument \<^verbatim>\<open>AntiSpamClientOptions\<close>: every field may be absent.\<close>

record AntiSpamClientOptions =
  warnThreshold_opt :: "int option"
  muteThreshold_opt :: "int option"
  kickThreshold_opt :: "int option"
  banThreshold_opt :: "int option"
  maxInterval_opt :: "int option"
  maxDuplicatesInterval_opt :: "int option"
  maxDuplicatesWarn_opt :: "int option"
  maxDuplicatesMute_opt :: "int option"
  maxDuplicatesKick_opt :: "int option"
  maxDuplicatesBan_opt :: "int option"
  unMuteTime_opt :: "int option"
  modLogsEnabled_opt :: "bool option"
  errorMessages_opt :: "bool option"
  ignoredMembers_opt :: "GuildMember Ignored option"
  ignoredRoles_opt :: "Role Ignored option"
  ignoredGuilds_opt :: "Guild Ignored option"
  ignoredChannels_opt :: "Channel Ignored option"
  ignoredPermissions_opt :: "Permission list option"
  ignoreBots_opt :: "bool option"
  warnEnabled_opt :: "bool option"
  ipwarnEnabled_opt :: "bool option"
  kickEnabled_opt :: "bool option"
  muteEnabled_opt :: "bool option"
  banEnabled_opt :: "bool option"
  deleteMessagesAfterBanForPastDays_opt :: "int option"
  debug_opt :: "bool option"
  removeMessages_opt :: "bool option"

text \<open>
  What the code cannot decide by itself: the clock (\<^verbatim>\<open>Date.now()\<close>), the result of
  \<^verbatim>\<open>guild.members.fetch\<close> (\<open>None\<close> when the promise rejects) and whether the platform
  calls \<^verbatim>\<open>ban\<close>, \<^verbatim>\<open>timeout\<close> and \<^verbatim>\<open>kick\<close> resolve.
\<close>

record Env =
  now :: int
  fetchedMember :: "GuildMember option"
  banResolves :: bool
  timeoutResolves :: bool
  kickResolves :: bool

text \<open>
  Effects on the outside world, in the order in which one call issues them. \<open>Emit\<close>
  carries the ids of the member, the channel and the message handed to the listeners.
\<close>

datatype Event = warnAdd | kickAdd | muteAdd | banAdd

datatype Effect =
    ClearSpamMessages "CachedMessage list"
  | DeleteMessage Snowflake
  | SendIpNotice Snowflake
  | SendErrorMessage string
  | MemberBan Snowflake int
  | MemberTimeout Snowflake int
  | MemberKick Snowflake
  | SendActionMessage string
  | Log string
  | Emit Event Snowflake Snowflake Snowflake

text \<open>The settled state of the promise an \<^verbatim>\<open>async\<close> sanction method returns.\<close>

datatype 'a Promise = Resolved 'a | Rejected

datatype error = FetchMemberRejected

section \<open>The constructor\<close>

text \<open>
  \<^verbatim>\<open>x || d\<close> on a number takes the default for an absent value and for zero;
  \<^verbatim>\<open>x || false\<close> and \<^verbatim>\<open>x ?? d\<close> on a boolean take the default only for an absent value.
\<close>

definition orNumber :: "int option \<Rightarrow> int \<Rightarrow> int" where
  "orNumber v d = (case v of None \<Rightarrow> d | Some n \<Rightarrow> if n = 0 then d else n)"

definition orFalse :: "bool option \<Rightarrow> bool" where
  "orFalse v = (case v of None \<Rightarrow> False | Some b \<Rightarrow> b)"

definition nullish :: "'a option \<Rightarrow> 'a \<Rightarrow> 'a" where
  "nullish v d = (case v of None \<Rightarrow> d | Some b \<Rightarrow> b)"

definition constructor :: "AntiSpamClientOptions \<Rightarrow> Options" where
  "constructor options =
    \<lparr> warnThreshold = orNumber (warnThreshold_opt options) 3,
      muteThreshold = orNumber (muteThreshold_opt options) 4,
      kickThreshold = orNumber (kickThreshold_opt options) 5,
      banThreshold = orNumber (banThreshold_opt options) 7,
      maxInterval = orNumber (maxInterval_opt options) 2000,
      maxDuplicatesInterval = orNumber (maxDuplicatesInterval_opt options) 2000,
      maxDuplicatesWarn = orNumber (maxDuplicatesWarn_opt options) 7,
      maxDuplicatesMute = orNumber (maxDuplicatesMute_opt options) 9,
      maxDuplicatesKick = orNumber (maxDuplicatesKick_opt options) 10,
      maxDuplicatesBan = orNumber (maxDuplicatesBan_opt options) 11,
      unMuteTime = orNumber (Some (nullish (unMuteTime_opt options) 5 * 60000)) 300000,
      modLogsEnabled = orFalse (modLogsEnabled_opt options),
      errorMessages = nullish (errorMessages_opt options) True,
      ignoredMembers = nullish (ignoredMembers_opt options) (IdList []),
      ignoredRoles = nullish (ignoredRoles_opt options) (IdList []),
      ignoredGuilds = nullish (ignoredGuilds_opt options) (IdList []),
      ignoredChannels = nullish (ignoredChannels_opt options) (IdList []),
      ignoredPermissions = nullish (ignoredPermissions_opt options) [],
      ignoreBots = nullish (ignoreBots_opt options) True,
      warnEnabled = nullish (warnEnabled_opt options) True,
      ipwarnEnabled = nullish (ipwarnEnabled_opt options) False,
      kickEnabled = nullish (kickEnabled_opt options) True,
      muteEnabled = nullish (muteEnabled_opt options) True,
      banEnabled = nullish (banEnabled_opt options) True,
      deleteMessagesAfterBanForPastDays =
        orNumber (deleteMessagesAfterBanForPastDays_opt options) 1,
      debug = orFalse (debug_opt options),
      removeMessages = nullish (removeMessages_opt options) True \<rparr>"

text \<open>The cache a new client starts with, and what \<^verbatim>\<open>reset\<close> installs.\<close>

definition emptyCache :: AntiSpamCache where
  "emptyCache = \<lparr> messages = [], warnedUsers = [], kickedUsers = [], bannedUsers = [] \<rparr>"

definition reset :: "AntiSpamCache \<Rightarrow> AntiSpamCache" where
  "reset cache = \<lparr> messages = [], warnedUsers = [], kickedUsers = [], bannedUsers = [] \<rparr>"

section \<open>The sanction methods\<close>

text \<open>
  Each method returns the new cache, the effects it issues and how its promise settles.
  \<^verbatim>\<open>sendActionMessage\<close> and \<^verbatim>\<open>log\<close> are recorded as calls; their formatting and channel
  look-up belong to the platform side. The effects are listed in the order in which the
  method issues them. Those after an \<^verbatim>\<open>await\<close> happen once the awaited platform call has
  settled; the caller does not wait for them, and they do not touch the cache. A platform
  call whose rejection is not caught (\<^verbatim>\<open>timeout\<close>, \<^verbatim>\<open>kick\<close>) rejects the method.
\<close>

definition banUser ::
  "Options \<Rightarrow> Env \<Rightarrow> Message \<Rightarrow> GuildMember \<Rightarrow> CachedMessage list \<Rightarrow> AntiSpamCache
    \<Rightarrow> AntiSpamCache \<times> Effect list \<times> bool Promise" where
  "banUser opts env message member spamMessages cache =
    (let cleared = (if removeMessages opts then [ClearSpamMessages spamMessages] else []);
         cache1 = cache\<lparr>messages :=
           filter (\<lambda>u. authorID u \<noteq> user_id (msg_author message)) (messages cache)\<rparr>;
         cache2 = cache1\<lparr>bannedUsers := bannedUsers cache1 @ [user_id (msg_author message)]\<rparr>
     in if \<not> bannable member then
          (cache2,
           cleared @
           (if errorMessages opts \<and> msg_guild message \<noteq> None \<and>
               isGuildText (msg_channel message)
            then [SendErrorMessage ''banErrorMessage''] else []),
           Resolved False)
        else
          (cache2,
           cleared @
           (case msg_member message of
              None \<Rightarrow> []
            | Some mm \<Rightarrow>
                MemberBan (member_id mm)
                  (60 * 60 * 24 * deleteMessagesAfterBanForPastDays opts) #
                (if \<not> banResolves env \<and> errorMessages opts \<and> isGuildText (msg_channel message)
                 then [SendErrorMessage ''banErrorMessage''] else [])) @
           [SendActionMessage ''ban''] @
           (if modLogsEnabled opts then [Log ''banned''] else []) @
           [Emit banAdd (member_id member) (channel_id (msg_channel message)) (msg_id message)],
           Resolved True))"

definition userCanBeMuted :: "Message \<Rightarrow> bool" where
  "userCanBeMuted message =
    (case msg_guild message of
       None \<Rightarrow> False
     | Some guild \<Rightarrow>
         (case members_me guild of
            None \<Rightarrow> False
          | Some me \<Rightarrow>
              me_hasModerateMembers me \<and>
              me_highestPosition me >
                (case msg_member message of
                   None \<Rightarrow> - 1
                 | Some mm \<Rightarrow> (case member_highestPosition mm of None \<Rightarrow> - 1 | Some p \<Rightarrow> p)) \<and>
              (case msg_member message of
                 None \<Rightarrow> True
               | Some mm \<Rightarrow> member_id mm \<noteq> ownerId guild)))"

definition muteUser ::
  "Options \<Rightarrow> Env \<Rightarrow> Message \<Rightarrow> GuildMember \<Rightarrow> CachedMessage list \<Rightarrow> AntiSpamCache
    \<Rightarrow> AntiSpamCache \<times> Effect list \<times> bool Promise" where
  "muteUser opts env message member spamMessages cache =
    (let cleared = (if removeMessages opts then [ClearSpamMessages spamMessages] else []);
         cache1 = cache\<lparr>messages :=
           filter (\<lambda>u. authorID u \<noteq> user_id (msg_author message)) (messages cache)\<rparr>
     in if \<not> userCanBeMuted message then
          (cache1,
           cleared @
           (if errorMessages opts \<and> isGuildText (msg_channel message)
            then [SendErrorMessage ''muteErrorMessage''] else []),
           Resolved False)
        else
          (case msg_member message of
             None \<Rightarrow>
               (cache1,
                cleared @ [SendActionMessage ''mute''] @
                (if modLogsEnabled opts then [Log ''muted''] else []) @
                [Emit muteAdd (member_id member) (channel_id (msg_channel message))
                   (msg_id message)],
                Resolved True)
           | Some mm \<Rightarrow>
               if timeoutResolves env then
                 (cache1,
                  cleared @ [MemberTimeout (member_id mm) (unMuteTime opts)] @
                  [SendActionMessage ''mute''] @
                  (if modLogsEnabled opts then [Log ''muted''] else []) @
                  [Emit muteAdd (member_id member) (channel_id (msg_channel message))
                     (msg_id message)],
                  Resolved True)
               else
                 (cache1, cleared @ [MemberTimeout (member_id mm) (unMuteTime opts)], Rejected)))"

definition kickUser ::
  "Options \<Rightarrow> Env \<Rightarrow> Message \<Rightarrow> GuildMember \<Rightarrow> CachedMessage list \<Rightarrow> AntiSpamCache
    \<Rightarrow> AntiSpamCache \<times> Effect list \<times> bool Promise" where
  "kickUser opts env message member spamMessages cache =
    (let cleared = (if removeMessages opts then [ClearSpamMessages spamMessages] else []);
         cache1 = cache\<lparr>messages :=
           filter (\<lambda>u. authorID u \<noteq> user_id (msg_author message)) (messages cache)\<rparr>;
         cache2 = cache1\<lparr>kickedUsers := kickedUsers cache1 @ [user_id (msg_author message)]\<rparr>
     in if \<not> kickable member then
          (cache2,
           cleared @
           (if errorMessages opts \<and> isGuildText (msg_channel message)
            then [SendErrorMessage ''muteErrorMessage''] else []),
           Resolved False)
        else
          (case msg_member message of
             None \<Rightarrow>
               (cache2,
                cleared @ [SendActionMessage ''kick''] @
                (if modLogsEnabled opts then [Log ''kicked''] else []) @
                [Emit kickAdd (member_id member) (channel_id (msg_channel message))
                   (msg_id message)],
                Resolved True)
           | Some mm \<Rightarrow>
               if kickResolves env then
                 (cache2,
                  cleared @ [MemberKick (member_id mm)] @
                  [SendActionMessage ''kick''] @
                  (if modLogsEnabled opts then [Log ''kicked''] else []) @
                  [Emit kickAdd (member_id member) (channel_id (msg_channel message))
                     (msg_id message)],
                  Resolved True)
               else (cache2, cleared @ [MemberKick (member_id mm)], Rejected)))"

definition warnUser ::
  "Options \<Rightarrow> Env \<Rightarrow> Message \<Rightarrow> GuildMember \<Rightarrow> CachedMessage list \<Rightarrow> AntiSpamCache
    \<Rightarrow> AntiSpamCache \<times> Effect list \<times> bool Promise" where
  "warnUser opts env message member spamMessages cache =
    (let cleared = (if removeMessages opts then [ClearSpamMessages spamMessages] else []);
         cache1 = cache\<lparr>warnedUsers := warnedUsers cache @ [user_id (msg_author message)]\<rparr>
     in (cache1,
         cleared @ (if modLogsEnabled opts then [Log ''warned''] else []) @
         [SendActionMessage ''warn''] @
         [Emit warnAdd (member_id member) (channel_id (msg_channel message)) (msg_id message)],
         Resolved True))"

section \<open>The method \<^verbatim>\<open>message\<close>\<close>

subsection \<open>The admission filter\<close>

definition isMemberIgnored :: "Options \<Rightarrow> Message \<Rightarrow> bool" where
  "isMemberIgnored opts message =
    (case ignoredMembers opts of
       IgnoreFunction f \<Rightarrow> (case msg_member message of Some m \<Rightarrow> f m | None \<Rightarrow> False)
     | IdList ids \<Rightarrow> user_id (msg_author message) \<in> set ids)"

definition isGuildIgnored :: "Options \<Rightarrow> Guild \<Rightarrow> bool" where
  "isGuildIgnored opts guild =
    (case ignoredGuilds opts of
       IgnoreFunction f \<Rightarrow> f guild
     | IdList ids \<Rightarrow> guild_id guild \<in> set ids)"

definition isChannelIgnored :: "Options \<Rightarrow> Channel \<Rightarrow> bool" where
  "isChannelIgnored opts channel =
    (case ignoredChannels opts of
       IgnoreFunction f \<Rightarrow> f channel
     | IdList ids \<Rightarrow> channel_id channel \<in> set ids)"

definition memberHasIgnoredRoles :: "GuildMember \<Rightarrow> Options \<Rightarrow> bool" where
  "memberHasIgnoredRoles member opts =
    (case ignoredRoles opts of
       IgnoreFunction ignoredRolesFunction \<Rightarrow> list_ex ignoredRolesFunction (member_roles member)
     | IdList ignoredRoleIds \<Rightarrow>
         list_ex (\<lambda>roleId. list_ex (\<lambda>r. role_id r = roleId) (member_roles member))
           ignoredRoleIds)"

text \<open>
  The checks that \<^verbatim>\<open>message\<close> makes before it touches the cache. The resolved
  \<^verbatim>\<open>ignoredRoles\<close> is always an array or a function, so the early return of
  \<^verbatim>\<open>memberHasIgnoredRoles\<close> on a missing option is never taken. \<open>Inr None\<close>: the
  event is ignored and the method returns \<^verbatim>\<open>false\<close>. \<open>Inl\<close>: fetching the member
  rejected and so does the method. \<open>Inr (Some (guild, member))\<close>: the event is admitted.
\<close>

definition admission :: "Options \<Rightarrow> Env \<Rightarrow> Message \<Rightarrow> error + (Guild \<times> GuildMember) option" where
  "admission opts env message =
    (case msg_guild message of
       None \<Rightarrow> Inr None
     | Some guild \<Rightarrow>
         if user_id (msg_author message) = msg_clientUserId message \<or>
            (ownerId guild = user_id (msg_author message) \<and> \<not> debug opts) \<or>
            (ignoreBots opts \<and> user_bot (msg_author message))
         then Inr None
         else if isMemberIgnored opts message then Inr None
         else if isGuildIgnored opts guild then Inr None
         else if isChannelIgnored opts (msg_channel message) then Inr None
         else
           (case (case msg_member message of Some m \<Rightarrow> Some m | None \<Rightarrow> fetchedMember env) of
              None \<Rightarrow> Inl FetchMemberRejected
            | Some member \<Rightarrow>
                if memberHasIgnoredRoles member opts then Inr None
                else if list_ex (\<lambda>permission. permissions_has member permission)
                          (ignoredPermissions opts)
                then Inr None
                else Inr (Some (guild, member))))"

subsection \<open>The address pattern\<close>

text \<open>
  \<^verbatim>\<open>/([0-9]{1,3}\.){3}[0-9]{1,3}/\<close> searched anywhere in the content. \<open>digits13\<close> gives
  every rest of the input after one to three leading digits, \<open>dotted\<close> the rests after a
  following dot.
\<close>

definition isDigit :: "char \<Rightarrow> bool" where
  "isDigit c = (c \<in> set ''0123456789'')"

fun digitsUpTo :: "nat \<Rightarrow> string \<Rightarrow> string list" where
  "digitsUpTo 0 s = []"
| "digitsUpTo (Suc n) [] = []"
| "digitsUpTo (Suc n) (c # s) = (if isDigit c then s # digitsUpTo n s else [])"

definition digits13 :: "string \<Rightarrow> string list" where
  "digits13 s = digitsUpTo 3 s"

definition dotted :: "string list \<Rightarrow> string list" where
  "dotted ss = concat (map (\<lambda>s. case s of [] \<Rightarrow> [] | c # t \<Rightarrow> if c = CHR ''.'' then [t] else []) ss)"

definition group :: "string list \<Rightarrow> string list" where
  "group ss = dotted (concat (map digits13 ss))"

definition matchesAt :: "string \<Rightarrow> bool" where
  "matchesAt s = (concat (map digits13 (group (group (group [s])))) \<noteq> [])"

fun contentMatchesRegex :: "string \<Rightarrow> bool" where
  "contentMatchesRegex [] = False"
| "contentMatchesRegex (c # s) = (matchesAt (c # s) \<or> contentMatchesRegex s)"

subsection \<open>Cached messages, duplicates and the run of recent duplicates\<close>

definition currentMessage :: "Message \<Rightarrow> Guild \<Rightarrow> CachedMessage" where
  "currentMessage message guild =
    \<lparr> messageID = msg_id message,
      guildID = guild_id guild,
      authorID = user_id (msg_author message),
      channelID = channel_id (msg_channel message),
      content = msg_content message,
      sentTimestamp = createdTimestamp message \<rparr>"

definition cachedMessagesOf :: "Message \<Rightarrow> Guild \<Rightarrow> AntiSpamCache \<Rightarrow> CachedMessage list" where
  "cachedMessagesOf message guild cache =
    filter (\<lambda>m. authorID m = user_id (msg_author message) \<and> guildID m = guild_id guild)
      (messages cache)"

definition duplicateMatchesOf ::
  "Options \<Rightarrow> Message \<Rightarrow> CachedMessage list \<Rightarrow> CachedMessage list" where
  "duplicateMatchesOf opts message cachedMessages =
    filter (\<lambda>m. content m = msg_content message \<and>
                sentTimestamp m > createdTimestamp message - maxDuplicatesInterval opts)
      cachedMessages"

text \<open>
  \<^verbatim>\<open>cachedMessages.sort((a, b) => b.sentTimestamp - a.sentTimestamp)\<close>: a stable sort,
  most recent first.
\<close>

definition sortBySentTimestamp :: "CachedMessage list \<Rightarrow> CachedMessage list" where
  "sortBySentTimestamp cachedMessages = sort_key (\<lambda>m. - sentTimestamp m) cachedMessages"

text \<open>
  The \<^verbatim>\<open>forEach\<close> callback with its two variables: the flag \<^verbatim>\<open>rowBroken\<close> and the
  array \<^verbatim>\<open>spamOtherDuplicates\<close> it pushes to.
\<close>

fun rowWalk ::
  "string \<Rightarrow> CachedMessage list \<Rightarrow> bool \<times> CachedMessage list \<Rightarrow> bool \<times> CachedMessage list" where
  "rowWalk c [] st = st"
| "rowWalk c (element # rest) (rowBroken, acc) =
     rowWalk c rest
       (if rowBroken then (rowBroken, acc)
        else if content element \<noteq> c then (True, acc)
        else (rowBroken, acc @ [element]))"

definition spamOtherDuplicates :: "CachedMessage list \<Rightarrow> CachedMessage list \<Rightarrow> CachedMessage list" where
  "spamOtherDuplicates cachedMessages duplicateMatches =
    (case duplicateMatches of
       [] \<Rightarrow> []
     | first # others \<Rightarrow>
         snd (rowWalk (content first) (sortBySentTimestamp cachedMessages) (False, [])))"

text \<open>The sort is in place, so the later filter reads the sorted array when the sort ran.\<close>

definition afterSort :: "CachedMessage list \<Rightarrow> CachedMessage list \<Rightarrow> CachedMessage list" where
  "afterSort cachedMessages duplicateMatches =
    (case duplicateMatches of
       [] \<Rightarrow> cachedMessages
     | first # others \<Rightarrow> sortBySentTimestamp cachedMessages)"

definition spamMatchesOf :: "Options \<Rightarrow> Env \<Rightarrow> CachedMessage list \<Rightarrow> CachedMessage list" where
  "spamMatchesOf opts env cachedMessages =
    filter (\<lambda>m. sentTimestamp m > now env - maxInterval opts) cachedMessages"

definition ipwarn :: "Message \<Rightarrow> Effect list" where
  "ipwarn message =
    (if contentMatchesRegex (msg_content message)
     then DeleteMessage (msg_id message) #
          (if isGuildText (msg_channel message)
           then [SendIpNotice (channel_id (msg_channel message))] else [])
     else [])"

subsection \<open>The four tier checks\<close>

text \<open>
  The state threaded through the checks is the cache, the effects issued so far and the
  variable \<^verbatim>\<open>sanctioned\<close>. The promise of a sanction method is not awaited and its value
  is not read.
\<close>

type_synonym TierState = "AntiSpamCache \<times> Effect list \<times> bool"

definition invoke ::
  "(CachedMessage list \<Rightarrow> AntiSpamCache \<Rightarrow> AntiSpamCache \<times> Effect list \<times> bool Promise)
    \<Rightarrow> CachedMessage list \<Rightarrow> AntiSpamCache \<Rightarrow> Effect list \<Rightarrow> TierState" where
  "invoke sanction spamMessages cache effs =
    (case sanction spamMessages cache of (cache', issued, settled) \<Rightarrow> (cache', effs @ issued, True))"

definition banCheck ::
  "Options \<Rightarrow> Env \<Rightarrow> Message \<Rightarrow> GuildMember \<Rightarrow> CachedMessage list \<Rightarrow> CachedMessage list
    \<Rightarrow> CachedMessage list \<Rightarrow> TierState \<Rightarrow> TierState" where
  "banCheck opts env message member spamMatches duplicateMatches spamOther st =
    (case st of (cache, effs, sanctioned) \<Rightarrow>
      let userCanBeBanned =
            (banEnabled opts \<and> user_id (msg_author message) \<notin> set (bannedUsers cache) \<and>
             \<not> sanctioned)
      in if userCanBeBanned \<and> int (length spamMatches) \<ge> banThreshold opts then
           invoke (banUser opts env message member) spamMatches cache effs
         else if userCanBeBanned \<and> int (length duplicateMatches) \<ge> maxDuplicatesBan opts then
           invoke (banUser opts env message member) (duplicateMatches @ spamOther) cache effs
         else st)"

definition muteCheck ::
  "Options \<Rightarrow> Env \<Rightarrow> Message \<Rightarrow> GuildMember \<Rightarrow> CachedMessage list \<Rightarrow> CachedMessage list
    \<Rightarrow> CachedMessage list \<Rightarrow> TierState \<Rightarrow> TierState" where
  "muteCheck opts env message member spamMatches duplicateMatches spamOther st =
    (case st of (cache, effs, sanctioned) \<Rightarrow>
      let userCanBeMuted = (muteEnabled opts \<and> \<not> sanctioned)
      in if userCanBeMuted \<and> int (length spamMatches) \<ge> muteThreshold opts then
           invoke (muteUser opts env message member) spamMatches cache effs
         else if userCanBeMuted \<and> int (length duplicateMatches) \<ge> maxDuplicatesMute opts then
           invoke (muteUser opts env message member) (duplicateMatches @ spamOther) cache effs
         else st)"

definition kickCheck ::
  "Options \<Rightarrow> Env \<Rightarrow> Message \<Rightarrow> GuildMember \<Rightarrow> CachedMessage list \<Rightarrow> CachedMessage list
    \<Rightarrow> CachedMessage list \<Rightarrow> TierState \<Rightarrow> TierState" where
  "kickCheck opts env message member spamMatches duplicateMatches spamOther st =
    (case st of (cache, effs, sanctioned) \<Rightarrow>
      let userCanBeKicked =
            (kickEnabled opts \<and> user_id (msg_author message) \<notin> set (kickedUsers cache) \<and>
             \<not> sanctioned)
      in if userCanBeKicked \<and> int (length spamMatches) \<ge> kickThreshold opts then
           invoke (kickUser opts env message member) spamMatches cache effs
         else if userCanBeKicked \<and> int (length duplicateMatches) \<ge> maxDuplicatesKick opts then
           invoke (kickUser opts env message member) (duplicateMatches @ spamOther) cache effs
         else st)"

text \<open>
  The warn check ends the method: its first branch returns \<^verbatim>\<open>true\<close>, the second sets
  \<^verbatim>\<open>sanctioned\<close>, and otherwise the method returns \<^verbatim>\<open>sanctioned\<close>.
\<close>

definition warnCheck ::
  "Options \<Rightarrow> Env \<Rightarrow> Message \<Rightarrow> GuildMember \<Rightarrow> CachedMessage list \<Rightarrow> CachedMessage list
    \<Rightarrow> CachedMessage list \<Rightarrow> TierState \<Rightarrow> bool \<times> AntiSpamCache \<times> Effect list" where
  "warnCheck opts env message member spamMatches duplicateMatches spamOther st =
    (case st of (cache, effs, sanctioned) \<Rightarrow>
      let userCanBeWarned =
            (warnEnabled opts \<and> user_id (msg_author message) \<notin> set (warnedUsers cache) \<and>
             \<not> sanctioned)
      in if userCanBeWarned \<and> int (length spamMatches) \<ge> warnThreshold opts then
           (case warnUser opts env message member spamMatches cache of
              (cache', issued, settled) \<Rightarrow> (True, cache', effs @ issued))
         else if userCanBeWarned \<and> int (length duplicateMatches) \<ge> maxDuplicatesWarn opts then
           (case warnUser opts env message member (duplicateMatches @ spamOther) cache of
              (cache', issued, settled) \<Rightarrow> (True, cache', effs @ issued))
         else (sanctioned, cache, effs))"

subsection \<open>The method body after admission\<close>

definition detect ::
  "Options \<Rightarrow> Env \<Rightarrow> Message \<Rightarrow> Guild \<Rightarrow> GuildMember \<Rightarrow> AntiSpamCache
    \<Rightarrow> bool \<times> AntiSpamCache \<times> Effect list" where
  "detect opts env message guild member cache =
    (let cache1 = cache\<lparr>messages := messages cache @ [currentMessage message guild]\<rparr>;
         cachedMessages = cachedMessagesOf message guild cache1;
         duplicateMatches = duplicateMatchesOf opts message cachedMessages
     in if ipwarnEnabled opts then
          (let spamOther = spamOtherDuplicates cachedMessages duplicateMatches;
               spamMatches = spamMatchesOf opts env (afterSort cachedMessages duplicateMatches);
               st0 = (cache1, ipwarn message, False);
               st1 = banCheck opts env message member spamMatches duplicateMatches spamOther st0;
               st2 = muteCheck opts env message member spamMatches duplicateMatches spamOther st1;
               st3 = kickCheck opts env message member spamMatches duplicateMatches spamOther st2
           in warnCheck opts env message member spamMatches duplicateMatches spamOther st3)
        else (False, cache1, []))"

text \<open>
  \<^verbatim>\<open>message\<close>: the returned boolean, the cache afterwards and the effects, or the
  rejection. An ignored event and a rejection leave the cache as it was.
\<close>

definition message ::
  "Options \<Rightarrow> Env \<Rightarrow> Message \<Rightarrow> AntiSpamCache \<Rightarrow> error + (bool \<times> AntiSpamCache \<times> Effect list)" where
  "message opts env msg cache =
    (case admission opts env msg of
       Inl e \<Rightarrow> Inl e
     | Inr None \<Rightarrow> Inr (False, cache, [])
     | Inr (Some (guild, member)) \<Rightarrow> Inr (detect opts env msg guild member cache))"

section \<open>The method \<^verbatim>\<open>userleave\<close>\<close>

definition userleave :: "Options \<Rightarrow> LeavingMember \<Rightarrow> AntiSpamCache \<Rightarrow> bool \<times> AntiSpamCache" where
  "userleave opts member cache =
    (if isGuildIgnored opts (leaving_guild member) then (False, cache)
     else
       (let cache1 = cache\<lparr>bannedUsers := filter (\<lambda>u. u \<noteq> leaving_userId member) (bannedUsers cache)\<rparr>;
            cache2 = cache1\<lparr>kickedUsers := filter (\<lambda>u. u \<noteq> leaving_userId member) (kickedUsers cache1)\<rparr>;
            cache3 = cache2\<lparr>warnedUsers := filter (\<lambda>u. u \<noteq> leaving_userId member) (warnedUsers cache2)\<rparr>
        in (True, cache3)))"

section \<open>Runs of message events\<close>

text \<open>
  Feeding a list of events to \<^verbatim>\<open>message\<close>, one after the other, each with its own
  environment. The result is the final cache and what each call returned.
\<close>

fun feed ::
  "Options \<Rightarrow> (Env \<times> Message) list \<Rightarrow> AntiSpamCache
    \<Rightarrow> AntiSpamCache \<times> (error + bool \<times> Effect list) list" where
  "feed opts [] cache = (cache, [])"
| "feed opts ((env, msg) # rest) cache =
     (case message opts env msg cache of
        Inl e \<Rightarrow> (case feed opts rest cache of (cache', outs) \<Rightarrow> (cache', Inl e # outs))
      | Inr (r, cache1, effs) \<Rightarrow>
          (case feed opts rest cache1 of (cache', outs) \<Rightarrow> (cache', Inr (r, effs) # outs)))"

section \<open>Tier selection in the words of the specification\<close>

text \<open>
  The specification describes one ordered selection over the tiers ban, mute, kick and
  warn. These definitions follow that description; \<open>checks_select\<close> below compares them
  with the four checks of the source.
\<close>

datatype Tier = Ban | Mute | Kick | Warn

definition eligible :: "Options \<Rightarrow> AntiSpamCache \<Rightarrow> Snowflake \<Rightarrow> Tier \<Rightarrow> bool" where
  "eligible opts cache author t =
    (case t of
       Ban \<Rightarrow> banEnabled opts \<and> author \<notin> set (bannedUsers cache)
     | Mute \<Rightarrow> muteEnabled opts
     | Kick \<Rightarrow> kickEnabled opts \<and> author \<notin> set (kickedUsers cache)
     | Warn \<Rightarrow> warnEnabled opts \<and> author \<notin> set (warnedUsers cache))"

definition countThreshold :: "Options \<Rightarrow> Tier \<Rightarrow> int" where
  "countThreshold opts t =
    (case t of Ban \<Rightarrow> banThreshold opts | Mute \<Rightarrow> muteThreshold opts
     | Kick \<Rightarrow> kickThreshold opts | Warn \<Rightarrow> warnThreshold opts)"

definition duplicateThreshold :: "Options \<Rightarrow> Tier \<Rightarrow> int" where
  "duplicateThreshold opts t =
    (case t of Ban \<Rightarrow> maxDuplicatesBan opts | Mute \<Rightarrow> maxDuplicatesMute opts
     | Kick \<Rightarrow> maxDuplicatesKick opts | Warn \<Rightarrow> maxDuplicatesWarn opts)"

definition tierMet :: "Options \<Rightarrow> AntiSpamCache \<Rightarrow> Snowflake \<Rightarrow> int \<Rightarrow> int \<Rightarrow> Tier \<Rightarrow> bool" where
  "tierMet opts cache author windowCount duplicateCount t =
    (eligible opts cache author t \<and>
     (windowCount \<ge> countThreshold opts t \<or> duplicateCount \<ge> duplicateThreshold opts t))"

definition selectTier :: "Options \<Rightarrow> AntiSpamCache \<Rightarrow> Snowflake \<Rightarrow> int \<Rightarrow> int \<Rightarrow> Tier option" where
  "selectTier opts cache author windowCount duplicateCount =
    find (tierMet opts cache author windowCount duplicateCount) [Ban, Mute, Kick, Warn]"

definition sanctionOf ::
  "Options \<Rightarrow> Env \<Rightarrow> Message \<Rightarrow> GuildMember \<Rightarrow> Tier \<Rightarrow> CachedMessage list \<Rightarrow> AntiSpamCache
    \<Rightarrow> AntiSpamCache \<times> Effect list \<times> bool Promise" where
  "sanctionOf opts env msg member t =
    (case t of Ban \<Rightarrow> banUser opts env msg member | Mute \<Rightarrow> muteUser opts env msg member
     | Kick \<Rightarrow> kickUser opts env msg member | Warn \<Rightarrow> warnUser opts env msg member)"

definition fired ::
  "Options \<Rightarrow> Env \<Rightarrow> Message \<Rightarrow> GuildMember \<Rightarrow> CachedMessage list \<Rightarrow> CachedMessage list
    \<Rightarrow> CachedMessage list \<Rightarrow> AntiSpamCache \<Rightarrow> Effect list \<Rightarrow> Tier option
    \<Rightarrow> bool \<times> AntiSpamCache \<times> Effect list" where
  "fired opts env msg member spamMatches duplicateMatches spamOther cache effs sel =
    (case sel of
       None \<Rightarrow> (False, cache, effs)
     | Some t \<Rightarrow>
         (case sanctionOf opts env msg member t
                 (if int (length spamMatches) \<ge> countThreshold opts t then spamMatches
                  else duplicateMatches @ spamOther) cache of
            (cache', issued, settled) \<Rightarrow> (True, cache', effs @ issued)))"

subsection \<open>The values one call computes\<close>

text \<open>
  Names for the local values of \<^verbatim>\<open>message\<close> on an admitted event: the cache after the
  push, \<^verbatim>\<open>cachedMessages\<close>, \<^verbatim>\<open>duplicateMatches\<close>, \<^verbatim>\<open>spamOtherDuplicates\<close>,
  \<^verbatim>\<open>spamMatches\<close>, and the tier the ordered selection picks from them.
\<close>

definition pushed :: "Message \<Rightarrow> Guild \<Rightarrow> AntiSpamCache \<Rightarrow> AntiSpamCache" where
  "pushed msg guild cache = cache\<lparr>messages := messages cache @ [currentMessage msg guild]\<rparr>"

definition cachedNow :: "Message \<Rightarrow> Guild \<Rightarrow> AntiSpamCache \<Rightarrow> CachedMessage list" where
  "cachedNow msg guild cache = cachedMessagesOf msg guild (pushed msg guild cache)"

definition duplicatesNow :: "Options \<Rightarrow> Message \<Rightarrow> Guild \<Rightarrow> AntiSpamCache \<Rightarrow> CachedMessage list" where
  "duplicatesNow opts msg guild cache = duplicateMatchesOf opts msg (cachedNow msg guild cache)"

definition otherNow :: "Options \<Rightarrow> Message \<Rightarrow> Guild \<Rightarrow> AntiSpamCache \<Rightarrow> CachedMessage list" where
  "otherNow opts msg guild cache =
    spamOtherDuplicates (cachedNow msg guild cache) (duplicatesNow opts msg guild cache)"

definition spamNow :: "Options \<Rightarrow> Env \<Rightarrow> Message \<Rightarrow> Guild \<Rightarrow> AntiSpamCache \<Rightarrow> CachedMessage list" where
  "spamNow opts env msg guild cache =
    spamMatchesOf opts env (afterSort (cachedNow msg guild cache) (duplicatesNow opts msg guild cache))"

definition selectedNow :: "Options \<Rightarrow> Env \<Rightarrow> Message \<Rightarrow> Guild \<Rightarrow> AntiSpamCache \<Rightarrow> Tier option" where
  "selectedNow opts env msg guild cache =
    selectTier opts (pushed msg guild cache) (user_id (msg_author msg))
      (int (length (spamNow opts env msg guild cache)))
      (int (length (duplicatesNow opts msg guild cache)))"

subsection \<open>Kinds of effects\<close>

fun isEmit :: "Effect \<Rightarrow> bool" where
  "isEmit (Emit ev m c i) = True"
| "isEmit e = False"

text \<open>
  The three moderation calls on the member: \<^verbatim>\<open>ban\<close>, \<^verbatim>\<open>timeout\<close> and \<^verbatim>\<open>kick\<close>. Deleting
  messages and sending texts to a channel are calls on the platform too, but not these.
\<close>

fun isModerationCall :: "Effect \<Rightarrow> bool" where
  "isModerationCall (MemberBan m s) = True"
| "isModerationCall (MemberTimeout m d) = True"
| "isModerationCall (MemberKick m) = True"
| "isModerationCall e = False"

fun isBanEffect :: "Effect \<Rightarrow> bool" where
  "isBanEffect (MemberBan m s) = True"
| "isBanEffect (Emit ev m c i) = (ev = banAdd)"
| "isBanEffect e = False"

subsection \<open>When a sanction is denied\<close>

text \<open>
  A sanction can be denied in two ways. \<open>refusedBeforeCall\<close>: the method's own check
  fails (\<^verbatim>\<open>member.bannable\<close>, \<^verbatim>\<open>member.kickable\<close>, \<^verbatim>\<open>userCanBeMuted\<close>) and it takes the
  branch that returns \<^verbatim>\<open>false\<close> without calling the platform. \<open>rejectedByPlatform\<close>: the
  check passes, the moderation call is made and its promise rejects. \<open>warnUser\<close> has
  neither. \<open>clearedFor\<close> and \<open>errorText\<close> name what a method that gives up before the
  call still does: the first statement of each method, and the error text it posts.
\<close>

definition refusedBeforeCall :: "Tier \<Rightarrow> Message \<Rightarrow> GuildMember \<Rightarrow> bool" where
  "refusedBeforeCall t msg member =
    (case t of
       Ban \<Rightarrow> \<not> bannable member
     | Mute \<Rightarrow> \<not> userCanBeMuted msg
     | Kick \<Rightarrow> \<not> kickable member
     | Warn \<Rightarrow> False)"

definition rejectedByPlatform :: "Tier \<Rightarrow> Env \<Rightarrow> Message \<Rightarrow> GuildMember \<Rightarrow> bool" where
  "rejectedByPlatform t env msg member =
    (case t of
       Ban \<Rightarrow> bannable member \<and> msg_member msg \<noteq> None \<and> \<not> banResolves env
     | Mute \<Rightarrow> userCanBeMuted msg \<and> msg_member msg \<noteq> None \<and> \<not> timeoutResolves env
     | Kick \<Rightarrow> kickable member \<and> msg_member msg \<noteq> None \<and> \<not> kickResolves env
     | Warn \<Rightarrow> False)"

definition clearedFor :: "Options \<Rightarrow> CachedMessage list \<Rightarrow> Effect list" where
  "clearedFor opts sp = (if removeMessages opts then [ClearSpamMessages sp] else [])"

definition errorText :: "Options \<Rightarrow> Message \<Rightarrow> Tier \<Rightarrow> Effect list" where
  "errorText opts msg t =
    (case t of
       Ban \<Rightarrow>
         if errorMessages opts \<and> msg_guild msg \<noteq> None \<and> isGuildText (msg_channel msg)
         then [SendErrorMessage ''banErrorMessage''] else []
     | Mute \<Rightarrow>
         if errorMessages opts \<and> isGuildText (msg_channel msg)
         then [SendErrorMessage ''muteErrorMessage''] else []
     | Kick \<Rightarrow>
         if errorMessages opts \<and> isGuildText (msg_channel msg)
         then [SendErrorMessage ''muteErrorMessage''] else []
     | Warn \<Rightarrow> [])"

section \<open>Example inputs\<close>

definition noOptions :: AntiSpamClientOptions where
  "noOptions =
    \<lparr> warnThreshold_opt = None, muteThreshold_opt = None, kickThreshold_opt = None,
      banThreshold_opt = None, maxInterval_opt = None, maxDuplicatesInterval_opt = None,
      maxDuplicatesWarn_opt = None, maxDuplicatesMute_opt = None, maxDuplicatesKick_opt = None,
      maxDuplicatesBan_opt = None, unMuteTime_opt = None, modLogsEnabled_opt = None,
      errorMessages_opt = None, ignoredMembers_opt = None, ignoredRoles_opt = None,
      ignoredGuilds_opt = None, ignoredChannels_opt = None, ignoredPermissions_opt = None,
      ignoreBots_opt = None, warnEnabled_opt = None, ipwarnEnabled_opt = None,
      kickEnabled_opt = None, muteEnabled_opt = None, banEnabled_opt = None,
      deleteMessagesAfterBanForPastDays_opt = None, debug_opt = None,
      removeMessages_opt = None \<rparr>"

definition exampleGuild :: Guild where
  "exampleGuild =
    \<lparr> guild_id = ''g1'', ownerId = ''owner'',
      members_me = Some \<lparr> me_hasModerateMembers = True, me_highestPosition = 10 \<rparr> \<rparr>"

definition exampleChannel :: Channel where
  "exampleChannel = \<lparr> channel_id = ''c1'', isGuildText = True \<rparr>"

definition alice :: User where
  "alice = \<lparr> user_id = ''alice'', user_bot = False \<rparr>"

definition aliceMember :: GuildMember where
  "aliceMember =
    \<lparr> member_id = ''alice'', member_roles = [], member_highestPosition = Some 1,
      permissions_has = (\<lambda>p. False), bannable = True, kickable = True \<rparr>"

definition aliceSays :: "Snowflake \<Rightarrow> string \<Rightarrow> int \<Rightarrow> Message" where
  "aliceSays i c t =
    \<lparr> msg_id = i, msg_guild = Some exampleGuild, msg_author = alice,
      msg_clientUserId = ''antispam'', msg_member = Some aliceMember,
      msg_channel = exampleChannel, msg_content = c, createdTimestamp = t \<rparr>"

definition clock :: "int \<Rightarrow> Env" where
  "clock t =
    \<lparr> now = t, fetchedMember = None, banResolves = True, timeoutResolves = True,
      kickResolves = True \<rparr>"

definition cached :: "Snowflake \<Rightarrow> Snowflake \<Rightarrow> Snowflake \<Rightarrow> string \<Rightarrow> int \<Rightarrow> CachedMessage" where
  "cached i g a c t =
    \<lparr> messageID = i, guildID = g, authorID = a, channelID = ''c1'', content = c,
      sentTimestamp = t \<rparr>"

definition leavingAlice :: LeavingMember where
  "leavingAlice = \<lparr> leaving_guild = exampleGuild, leaving_userId = ''alice'' \<rparr>"

definition ipwarnOptions :: AntiSpamClientOptions where
  "ipwarnOptions = noOptions\<lparr>ipwarnEnabled_opt := Some True\<rparr>"

section \<open>The four checks select the first tier that is met\<close>

lemma banCheck_done: "banCheck opts env msg member sp du ot (c, e, True) = (c, e, True)"
  by (simp add: banCheck_def)
lemma muteCheck_done: "muteCheck opts env msg member sp du ot (c, e, True) = (c, e, True)"
  by (simp add: muteCheck_def)
lemma kickCheck_done: "kickCheck opts env msg member sp du ot (c, e, True) = (c, e, True)"
  by (simp add: kickCheck_def)
lemma warnCheck_done: "warnCheck opts env msg member sp du ot (c, e, True) = (True, c, e)"
  by (simp add: warnCheck_def)

lemma invoke_sanctioned: "\<exists>c' e'. invoke f l c e = (c', e', True)"
  by (simp add: invoke_def split: prod.splits)

lemma banCheck_skip:
  "\<not> tierMet opts c (user_id (msg_author msg)) (int (length sp)) (int (length du)) Ban \<Longrightarrow>
   banCheck opts env msg member sp du ot (c, e, False) = (c, e, False)"
  by (auto simp add: banCheck_def tierMet_def eligible_def countThreshold_def duplicateThreshold_def)
lemma muteCheck_skip:
  "\<not> tierMet opts c (user_id (msg_author msg)) (int (length sp)) (int (length du)) Mute \<Longrightarrow>
   muteCheck opts env msg member sp du ot (c, e, False) = (c, e, False)"
  by (auto simp add: muteCheck_def tierMet_def eligible_def countThreshold_def duplicateThreshold_def)
lemma kickCheck_skip:
  "\<not> tierMet opts c (user_id (msg_author msg)) (int (length sp)) (int (length du)) Kick \<Longrightarrow>
   kickCheck opts env msg member sp du ot (c, e, False) = (c, e, False)"
  by (auto simp add: kickCheck_def tierMet_def eligible_def countThreshold_def duplicateThreshold_def)
lemma warnCheck_skip:
  "\<not> tierMet opts c (user_id (msg_author msg)) (int (length sp)) (int (length du)) Warn \<Longrightarrow>
   warnCheck opts env msg member sp du ot (c, e, False) = (False, c, e)"
  by (auto simp add: warnCheck_def tierMet_def eligible_def countThreshold_def duplicateThreshold_def)

lemma banCheck_fire:
  "tierMet opts c (user_id (msg_author msg)) (int (length sp)) (int (length du)) Ban \<Longrightarrow>
   banCheck opts env msg member sp du ot (c, e, False) =
     invoke (banUser opts env msg member)
       (if int (length sp) \<ge> countThreshold opts Ban then sp else du @ ot) c e"
  by (auto simp add: banCheck_def tierMet_def eligible_def countThreshold_def duplicateThreshold_def)
lemma muteCheck_fire:
  "tierMet opts c (user_id (msg_author msg)) (int (length sp)) (int (length du)) Mute \<Longrightarrow>
   muteCheck opts env msg member sp du ot (c, e, False) =
     invoke (muteUser opts env msg member)
       (if int (length sp) \<ge> countThreshold opts Mute then sp else du @ ot) c e"
  by (auto simp add: muteCheck_def tierMet_def eligible_def countThreshold_def duplicateThreshold_def)
lemma kickCheck_fire:
  "tierMet opts c (user_id (msg_author msg)) (int (length sp)) (int (length du)) Kick \<Longrightarrow>
   kickCheck opts env msg member sp du ot (c, e, False) =
     invoke (kickUser opts env msg member)
       (if int (length sp) \<ge> countThreshold opts Kick then sp else du @ ot) c e"
  by (auto simp add: kickCheck_def tierMet_def eligible_def countThreshold_def duplicateThreshold_def)
lemma warnCheck_fire:
  "tierMet opts c (user_id (msg_author msg)) (int (length sp)) (int (length du)) Warn \<Longrightarrow>
   warnCheck opts env msg member sp du ot (c, e, False) =
     (case warnUser opts env msg member
        (if int (length sp) \<ge> countThreshold opts Warn then sp else du @ ot) c of
       (c', issued, settled) \<Rightarrow> (True, c', e @ issued))"
  by (auto simp add: warnCheck_def tierMet_def eligible_def countThreshold_def duplicateThreshold_def)

lemma checks_select:
  "warnCheck opts env msg member sp du ot
     (kickCheck opts env msg member sp du ot
       (muteCheck opts env msg member sp du ot
         (banCheck opts env msg member sp du ot (c, e, False)))) =
   fired opts env msg member sp du ot c e
     (selectTier opts c (user_id (msg_author msg)) (int (length sp)) (int (length du)))"
proof -
  let ?met = "tierMet opts c (user_id (msg_author msg)) (int (length sp)) (int (length du))"
  define L where "L t = (if int (length sp) \<ge> countThreshold opts t then sp else du @ ot)" for t
  have fired_Some: "fired opts env msg member sp du ot c e (Some t) =
      (case sanctionOf opts env msg member t (L t) c of
         (c', issued, settled) \<Rightarrow> (True, c', e @ issued))" for t
    by (simp add: fired_def L_def)
  show ?thesis
  proof (cases "?met Ban")
    case True
    obtain c' i s where b: "banUser opts env msg member (L Ban) c = (c', i, s)"
      by (cases "banUser opts env msg member (L Ban) c") auto
    have "banCheck opts env msg member sp du ot (c, e, False) = (c', e @ i, True)"
      using banCheck_fire [OF True] b by (simp add: invoke_def L_def)
    moreover have "selectTier opts c (user_id (msg_author msg)) (int (length sp)) (int (length du)) = Some Ban"
      using True by (simp add: selectTier_def)
    ultimately show ?thesis
      using b by (simp add: muteCheck_done kickCheck_done warnCheck_done fired_Some sanctionOf_def)
  next
    case noBan: False
    show ?thesis
    proof (cases "?met Mute")
      case True
      obtain c' i s where b: "muteUser opts env msg member (L Mute) c = (c', i, s)"
        by (cases "muteUser opts env msg member (L Mute) c") auto
      have "muteCheck opts env msg member sp du ot (c, e, False) = (c', e @ i, True)"
        using muteCheck_fire [OF True] b by (simp add: invoke_def L_def)
      moreover have "selectTier opts c (user_id (msg_author msg)) (int (length sp)) (int (length du)) = Some Mute"
        using noBan True by (simp add: selectTier_def)
      ultimately show ?thesis
        using b noBan
        by (simp add: banCheck_skip kickCheck_done warnCheck_done fired_Some sanctionOf_def)
    next
      case noMute: False
      show ?thesis
      proof (cases "?met Kick")
        case True
        obtain c' i s where b: "kickUser opts env msg member (L Kick) c = (c', i, s)"
          by (cases "kickUser opts env msg member (L Kick) c") auto
        have "kickCheck opts env msg member sp du ot (c, e, False) = (c', e @ i, True)"
          using kickCheck_fire [OF True] b by (simp add: invoke_def L_def)
        moreover have "selectTier opts c (user_id (msg_author msg)) (int (length sp)) (int (length du)) = Some Kick"
          using noBan noMute True by (simp add: selectTier_def)
        ultimately show ?thesis
          using b noBan noMute
          by (simp add: banCheck_skip muteCheck_skip warnCheck_done fired_Some sanctionOf_def)
      next
        case noKick: False
        show ?thesis
        proof (cases "?met Warn")
          case True
          have "selectTier opts c (user_id (msg_author msg)) (int (length sp)) (int (length du)) = Some Warn"
            using noBan noMute noKick True by (simp add: selectTier_def)
          then show ?thesis
            using noBan noMute noKick warnCheck_fire [OF True]
            by (simp add: banCheck_skip muteCheck_skip kickCheck_skip fired_Some sanctionOf_def L_def)
        next
          case False
          have "selectTier opts c (user_id (msg_author msg)) (int (length sp)) (int (length du)) = None"
            using noBan noMute noKick False by (simp add: selectTier_def)
          then show ?thesis
            using noBan noMute noKick False
            by (simp add: banCheck_skip muteCheck_skip kickCheck_skip warnCheck_skip fired_def)
        qed
      qed
    qed
  qed
qed


lemma message_admitted:
  "admission opts env msg = Inr (Some (guild, member)) \<Longrightarrow>
   message opts env msg cache = Inr (detect opts env msg guild member cache)"
  by (simp add: message_def)

lemma message_ignored:
  "admission opts env msg = Inr None \<Longrightarrow> message opts env msg cache = Inr (False, cache, [])"
  by (simp add: message_def)

lemma message_rejected:
  "admission opts env msg = Inl e \<Longrightarrow> message opts env msg cache = Inl e"
  by (simp add: message_def)

lemma detect_disabled:
  "\<not> ipwarnEnabled opts \<Longrightarrow>
   detect opts env msg guild member cache = (False, pushed msg guild cache, [])"
  by (simp add: detect_def pushed_def Let_def)

lemma detect_select:
  "ipwarnEnabled opts \<Longrightarrow>
   detect opts env msg guild member cache =
     fired opts env msg member (spamNow opts env msg guild cache)
       (duplicatesNow opts msg guild cache) (otherNow opts msg guild cache)
       (pushed msg guild cache) (ipwarn msg) (selectedNow opts env msg guild cache)"
  by (simp add: detect_def Let_def checks_select spamNow_def duplicatesNow_def otherNow_def
      cachedNow_def pushed_def selectedNow_def)

text \<open>Frame facts of the four sanction methods.\<close>

lemma sanction_messages:
  "messages (fst (sanctionOf opts env msg member t sp cache)) =
     (if t = Warn then messages cache
      else filter (\<lambda>u. authorID u \<noteq> user_id (msg_author msg)) (messages cache))"
  by (cases t)
     (simp_all add: sanctionOf_def banUser_def muteUser_def kickUser_def warnUser_def Let_def
        split: option.splits)

lemma sanction_bannedUsers:
  "bannedUsers (fst (sanctionOf opts env msg member t sp cache)) =
     (if t = Ban then bannedUsers cache @ [user_id (msg_author msg)] else bannedUsers cache)"
  by (cases t)
     (simp_all add: sanctionOf_def banUser_def muteUser_def kickUser_def warnUser_def Let_def
        split: option.splits)

lemma sanction_kickedUsers:
  "kickedUsers (fst (sanctionOf opts env msg member t sp cache)) =
     (if t = Kick then kickedUsers cache @ [user_id (msg_author msg)] else kickedUsers cache)"
  by (cases t)
     (simp_all add: sanctionOf_def banUser_def muteUser_def kickUser_def warnUser_def Let_def
        split: option.splits)

lemma sanction_warnedUsers:
  "warnedUsers (fst (sanctionOf opts env msg member t sp cache)) =
     (if t = Warn then warnedUsers cache @ [user_id (msg_author msg)] else warnedUsers cache)"
  by (cases t)
     (simp_all add: sanctionOf_def banUser_def muteUser_def kickUser_def warnUser_def Let_def
        split: option.splits)

lemma sanction_clears:
  "(ClearSpamMessages sp \<in> set (fst (snd (sanctionOf opts env msg member t sp cache)))) =
     removeMessages opts"
  by (cases t)
     (auto simp add: sanctionOf_def banUser_def muteUser_def kickUser_def warnUser_def Let_def
        split: option.splits)

lemma sanction_emits_once:
  "length (filter isEmit (fst (snd (sanctionOf opts env msg member t sp cache)))) \<le> 1"
  by (cases t)
     (auto simp add: sanctionOf_def banUser_def muteUser_def kickUser_def warnUser_def Let_def
        split: option.splits)

lemma ipwarn_no_emit: "filter isEmit (ipwarn msg) = []"
  by (simp add: ipwarn_def)

lemma fired_fst: "fst (fired opts env msg member sp du ot c e sel) = (sel \<noteq> None)"
  by (simp add: fired_def split: option.splits prod.splits)

lemma fired_cache:
  "fst (snd (fired opts env msg member sp du ot c e sel)) =
     (case sel of None \<Rightarrow> c
      | Some t \<Rightarrow> fst (sanctionOf opts env msg member t
          (if int (length sp) \<ge> countThreshold opts t then sp else du @ ot) c))"
  by (simp add: fired_def split: option.splits prod.splits)

lemma fired_effects:
  "snd (snd (fired opts env msg member sp du ot c e sel)) =
     (case sel of None \<Rightarrow> e
      | Some t \<Rightarrow> e @ fst (snd (sanctionOf opts env msg member t
          (if int (length sp) \<ge> countThreshold opts t then sp else du @ ot) c)))"
  by (simp add: fired_def split: option.splits prod.splits)

lemmas example_defs =
  noOptions_def exampleGuild_def exampleChannel_def alice_def aliceMember_def aliceSays_def
  clock_def cached_def emptyCache_def constructor_def orNumber_def orFalse_def nullish_def

lemmas message_defs =
  message_def admission_def isMemberIgnored_def isGuildIgnored_def isChannelIgnored_def
  memberHasIgnoredRoles_def detect_def currentMessage_def cachedMessagesOf_def
  duplicateMatchesOf_def spamOtherDuplicates_def sortBySentTimestamp_def afterSort_def
  spamMatchesOf_def ipwarn_def banCheck_def muteCheck_def kickCheck_def warnCheck_def
  invoke_def banUser_def muteUser_def kickUser_def warnUser_def userCanBeMuted_def
  matchesAt_def group_def dotted_def digits13_def isDigit_def numeral_3_eq_3 Let_def

section \<open>C2: without the ipwarn option nothing is evaluated\<close>

text \<open>
  C2. For an admitted message event, when \<open>ipwarnEnabled\<close> is false the method returns
  false, the only change of the cache is the appended message, the lists of sanctioned users
  are untouched and no effect is issued, so no sanction method runs and no event is
  emitted. The constructor sets the option to true only when the caller passes true, so
  false is the default.
\<close>

theorem ipwarn_disabled_returns_false:
  assumes "admission opts env msg = Inr (Some (guild, member))"
    and "ipwarnEnabled opts = False"
  shows "message opts env msg cache =
           Inr (False, cache\<lparr>messages := messages cache @ [currentMessage msg guild]\<rparr>, [])
         \<and> ipwarnEnabled (constructor options) = (ipwarnEnabled_opt options = Some True)"
proof -
  have "message opts env msg cache = Inr (detect opts env msg guild member cache)"
    using assms(1) by (rule message_admitted)
  moreover have "detect opts env msg guild member cache = (False, pushed msg guild cache, [])"
    using assms(2) by (simp add: detect_disabled)
  moreover have "ipwarnEnabled (constructor options) = (ipwarnEnabled_opt options = Some True)"
    by (cases "ipwarnEnabled_opt options") (simp_all add: constructor_def nullish_def)
  ultimately show ?thesis by (simp add: pushed_def)
qed

theorem ipwarn_disabled_returns_false_witness:
  "admission (constructor noOptions) (clock 1000) (aliceSays ''m1'' ''hello'' 1000) =
     Inr (Some (exampleGuild, aliceMember))
   \<and> ipwarnEnabled (constructor noOptions) = False
   \<and> message (constructor noOptions) (clock 1000) (aliceSays ''m1'' ''hello'' 1000) emptyCache =
       Inr (False,
            \<lparr> messages = [cached ''m1'' ''g1'' ''alice'' ''hello'' 1000], warnedUsers = [],
              kickedUsers = [], bannedUsers = [] \<rparr>, [])"
proof -
  have adm: "admission (constructor noOptions) (clock 1000) (aliceSays ''m1'' ''hello'' 1000) =
     Inr (Some (exampleGuild, aliceMember))"
    by (simp add: example_defs admission_def isMemberIgnored_def isGuildIgnored_def
        isChannelIgnored_def memberHasIgnoredRoles_def)
  have off: "ipwarnEnabled (constructor noOptions) = False"
    by (simp add: example_defs)
  show ?thesis
    using ipwarn_disabled_returns_false [OF adm off, of emptyCache noOptions] adm off
    by (simp add: currentMessage_def example_defs)
qed

section \<open>C5: the run of recent duplicates\<close>

lemma rowWalk_broken: "rowWalk c xs (True, acc) = (True, acc)"
  by (induction xs) simp_all

lemma rowWalk_takeWhile:
  "snd (rowWalk c xs (False, acc)) = acc @ takeWhile (\<lambda>e. content e = c) xs"
  by (induction xs arbitrary: acc) (simp_all add: rowWalk_broken)

lemma sortBySentTimestamp_sorted:
  "sorted_wrt (\<lambda>a b. sentTimestamp a \<ge> sentTimestamp b) (sortBySentTimestamp xs)"
proof -
  have "sorted (map (\<lambda>m. - sentTimestamp m) (sortBySentTimestamp xs))"
    unfolding sortBySentTimestamp_def by (rule sorted_sort_key)
  then show ?thesis
    by (simp add: sorted_map sorted_wrt_iff_nth_less)
qed

lemma sortBySentTimestamp_mset: "mset (sortBySentTimestamp xs) = mset xs"
  by (simp add: sortBySentTimestamp_def)

text \<open>
  The run in terms of list functions: the walk over the sorted records is \<open>takeWhile\<close>,
  the sorted list is in descending order of time and a rearrangement of the input, and
  without a duplicate match nothing is walked.
\<close>

lemma spamOtherDuplicates_takeWhile:
  "spamOtherDuplicates cachedMessages duplicateMatches =
     (if duplicateMatches = [] then []
      else takeWhile (\<lambda>e. content e = content (hd duplicateMatches))
             (sortBySentTimestamp cachedMessages))
   \<and> sorted_wrt (\<lambda>a b. sentTimestamp a \<ge> sentTimestamp b) (sortBySentTimestamp cachedMessages)
   \<and> mset (sortBySentTimestamp cachedMessages) = mset cachedMessages
   \<and> spamOtherDuplicates cachedMessages [] = []"
proof (cases duplicateMatches)
  case Nil
  then show ?thesis
    by (simp add: spamOtherDuplicates_def sortBySentTimestamp_sorted sortBySentTimestamp_mset)
next
  case (Cons first others)
  then show ?thesis
    by (simp add: spamOtherDuplicates_def rowWalk_takeWhile sortBySentTimestamp_sorted
        sortBySentTimestamp_mset)
qed

lemma cachedNow_append:
  "cachedNow msg g c =
     filter (\<lambda>m. authorID m = user_id (msg_author msg) \<and> guildID m = guild_id g) (messages c)
     @ [currentMessage msg g]"
  by (simp add: cachedNow_def cachedMessagesOf_def pushed_def currentMessage_def)

lemma duplicatesNow_content:
  "m \<in> set (duplicatesNow opts msg g c) \<Longrightarrow> content m = msg_content msg"
  by (simp add: duplicatesNow_def duplicateMatchesOf_def)

lemma otherNow_run:
  "otherNow opts msg g c =
     (if duplicatesNow opts msg g c = [] then []
      else takeWhile (\<lambda>e. content e = msg_content msg)
             (sortBySentTimestamp (cachedNow msg g c)))"
proof (cases "duplicatesNow opts msg g c")
  case Nil
  then show ?thesis by (simp add: otherNow_def spamOtherDuplicates_def)
next
  case (Cons first others)
  then have "content first = msg_content msg"
    using duplicatesNow_content [of first opts msg g c] by simp
  then show ?thesis
    using Cons by (simp add: otherNow_def spamOtherDuplicates_def rowWalk_takeWhile)
qed

text \<open>
  Where the tier checks run, the run is what C5 says and it reaches the sanction. For an
  admitted event with \<open>ipwarnEnabled\<close> set, the author's cached records of the guild
  (the new one last) are sorted by \<open>sentTimestamp\<close>, most recent first; the run is the
  longest prefix of that list whose content is the content of the duplicate matches, and
  it is empty when there is no duplicate match. When a tier fires on its duplicate
  threshold, the sanction method receives the duplicate matches followed by this run.
\<close>

lemma run_reaches_sanction:
  assumes "admission opts env msg = Inr (Some (guild, member))"
    and "ipwarnEnabled opts"
    and "selectedNow opts env msg guild cache = Some t"
    and "\<not> countThreshold opts t \<le> int (length (spamNow opts env msg guild cache))"
  shows "\<exists>c' issued settled.
           sanctionOf opts env msg member t
             (duplicatesNow opts msg guild cache @
              (if duplicatesNow opts msg guild cache = [] then []
               else takeWhile (\<lambda>e. content e = msg_content msg)
                      (sortBySentTimestamp (cachedNow msg guild cache))))
             (pushed msg guild cache) = (c', issued, settled)
           \<and> message opts env msg cache = Inr (True, c', ipwarn msg @ issued)
           \<and> (removeMessages opts \<longrightarrow>
                ClearSpamMessages
                  (duplicatesNow opts msg guild cache @
                   (if duplicatesNow opts msg guild cache = [] then []
                    else takeWhile (\<lambda>e. content e = msg_content msg)
                           (sortBySentTimestamp (cachedNow msg guild cache)))) \<in> set issued)"
proof -
  define sp where "sp = duplicatesNow opts msg guild cache @ otherNow opts msg guild cache"
  obtain c' issued settled where
    sa: "sanctionOf opts env msg member t sp (pushed msg guild cache) = (c', issued, settled)"
    by (cases "sanctionOf opts env msg member t sp (pushed msg guild cache)") auto
  have "message opts env msg cache = Inr (detect opts env msg guild member cache)"
    using assms(1) by (rule message_admitted)
  then have m: "message opts env msg cache = Inr (True, c', ipwarn msg @ issued)"
    using assms(2,3,4) sa by (simp add: detect_select fired_def sp_def)
  have cl: "removeMessages opts \<longrightarrow> ClearSpamMessages sp \<in> set issued"
    using sanction_clears [of sp opts env msg member t "pushed msg guild cache"] sa by simp
  show ?thesis
    using sa m cl unfolding sp_def otherNow_run by blast
qed

text \<open>
  C5. The claim: for every admitted message event with a non-empty \<open>duplicateMatches\<close>,
  \<open>spamOtherDuplicates\<close> is the run of the author's most recent cached messages, newest
  first, whose content equals that of the first duplicate match, ending for good at the
  first other content. The code fails it on this admitted event. The options leave
  \<open>ipwarnEnabled\<close> unset; the event has three duplicate matches; \<^verbatim>\<open>message\<close> returns
  false right after computing them, so no run is computed and no sanction method receives
  one. The same event with \<open>ipwarnEnabled\<close> set shows the rest of the method at work: the
  run is \<open>m4, m3\<close> (it stops at \<open>m2\<close>, whose content differs, and leaves out \<open>m1\<close>), and
  \<open>warnUser\<close> receives the duplicate matches followed by the run.
\<close>

theorem duplicate_run_skipped_by_default:
  "admission (constructor (noOptions\<lparr>maxInterval_opt := Some 100,
       maxDuplicatesWarn_opt := Some 3\<rparr>)) (clock 1500) (aliceSays ''m4'' ''x'' 1500) =
     Inr (Some (exampleGuild, aliceMember))
   \<and> ipwarnEnabled (constructor (noOptions\<lparr>maxInterval_opt := Some 100,
       maxDuplicatesWarn_opt := Some 3\<rparr>)) = False
   \<and> duplicatesNow (constructor (noOptions\<lparr>maxInterval_opt := Some 100,
       maxDuplicatesWarn_opt := Some 3\<rparr>)) (aliceSays ''m4'' ''x'' 1500) exampleGuild
       \<lparr> messages = [cached ''m1'' ''g1'' ''alice'' ''x'' 0,
                     cached ''m2'' ''g1'' ''alice'' ''y'' 500,
                     cached ''m3'' ''g1'' ''alice'' ''x'' 1000],
         warnedUsers = [], kickedUsers = [], bannedUsers = [] \<rparr> =
     [cached ''m1'' ''g1'' ''alice'' ''x'' 0, cached ''m3'' ''g1'' ''alice'' ''x'' 1000,
      cached ''m4'' ''g1'' ''alice'' ''x'' 1500]
   \<and> message (constructor (noOptions\<lparr>maxInterval_opt := Some 100,
       maxDuplicatesWarn_opt := Some 3\<rparr>)) (clock 1500) (aliceSays ''m4'' ''x'' 1500)
       \<lparr> messages = [cached ''m1'' ''g1'' ''alice'' ''x'' 0,
                     cached ''m2'' ''g1'' ''alice'' ''y'' 500,
                     cached ''m3'' ''g1'' ''alice'' ''x'' 1000],
         warnedUsers = [], kickedUsers = [], bannedUsers = [] \<rparr> =
     Inr (False,
          \<lparr> messages = [cached ''m1'' ''g1'' ''alice'' ''x'' 0,
                     cached ''m2'' ''g1'' ''alice'' ''y'' 500,
                     cached ''m3'' ''g1'' ''alice'' ''x'' 1000,
                     cached ''m4'' ''g1'' ''alice'' ''x'' 1500],
            warnedUsers = [], kickedUsers = [], bannedUsers = [] \<rparr>, [])
   \<and> otherNow (constructor (ipwarnOptions\<lparr>maxInterval_opt := Some 100,
       maxDuplicatesWarn_opt := Some 3\<rparr>)) (aliceSays ''m4'' ''x'' 1500) exampleGuild
       \<lparr> messages = [cached ''m1'' ''g1'' ''alice'' ''x'' 0,
                     cached ''m2'' ''g1'' ''alice'' ''y'' 500,
                     cached ''m3'' ''g1'' ''alice'' ''x'' 1000],
         warnedUsers = [], kickedUsers = [], bannedUsers = [] \<rparr> =
     [cached ''m4'' ''g1'' ''alice'' ''x'' 1500, cached ''m3'' ''g1'' ''alice'' ''x'' 1000]
   \<and> message (constructor (ipwarnOptions\<lparr>maxInterval_opt := Some 100,
       maxDuplicatesWarn_opt := Some 3\<rparr>)) (clock 1500) (aliceSays ''m4'' ''x'' 1500)
       \<lparr> messages = [cached ''m1'' ''g1'' ''alice'' ''x'' 0,
                     cached ''m2'' ''g1'' ''alice'' ''y'' 500,
                     cached ''m3'' ''g1'' ''alice'' ''x'' 1000],
         warnedUsers = [], kickedUsers = [], bannedUsers = [] \<rparr> =
     Inr (True,
          \<lparr> messages = [cached ''m1'' ''g1'' ''alice'' ''x'' 0,
                     cached ''m2'' ''g1'' ''alice'' ''y'' 500,
                     cached ''m3'' ''g1'' ''alice'' ''x'' 1000,
                     cached ''m4'' ''g1'' ''alice'' ''x'' 1500],
            warnedUsers = [''alice''], kickedUsers = [], bannedUsers = [] \<rparr>,
          [ClearSpamMessages [cached ''m1'' ''g1'' ''alice'' ''x'' 0,
                              cached ''m3'' ''g1'' ''alice'' ''x'' 1000,
                              cached ''m4'' ''g1'' ''alice'' ''x'' 1500,
                              cached ''m4'' ''g1'' ''alice'' ''x'' 1500,
                              cached ''m3'' ''g1'' ''alice'' ''x'' 1000],
           SendActionMessage ''warn'', Emit warnAdd ''alice'' ''c1'' ''m4''])"
  by (simp add: message_defs example_defs ipwarnOptions_def otherNow_def duplicatesNow_def
      cachedNow_def pushed_def)

section \<open>C8: the purge is by author id alone\<close>

text \<open>
  C8. When a sanction method purges the author (ban, mute and kick do), the cache
  afterwards holds no record with the author's id, whatever the guild of the record, and
  the records of every other author are the same, in the same order.
\<close>

theorem purge_is_not_guild_scoped:
  assumes "t \<noteq> Warn"
  shows "messages (fst (sanctionOf opts env msg member t sp cache)) =
           filter (\<lambda>m. authorID m \<noteq> user_id (msg_author msg)) (messages cache)
         \<and> filter (\<lambda>m. authorID m = user_id (msg_author msg) \<and> guildID m = g)
             (messages (fst (sanctionOf opts env msg member t sp cache))) = []
         \<and> filter (\<lambda>m. authorID m \<noteq> user_id (msg_author msg))
             (messages (fst (sanctionOf opts env msg member t sp cache))) =
           filter (\<lambda>m. authorID m \<noteq> user_id (msg_author msg)) (messages cache)"
  using assms by (simp add: sanction_messages filter_empty_conv)

theorem purge_is_not_guild_scoped_witness:
  "Kick \<noteq> Warn
   \<and> messages (fst (sanctionOf (constructor noOptions) (clock 5) (aliceSays ''m4'' ''x'' 5)
        aliceMember Kick []
        \<lparr> messages = [cached ''m1'' ''g1'' ''alice'' ''x'' 1, cached ''m2'' ''g2'' ''alice'' ''y'' 2,
                      cached ''m3'' ''g1'' ''bob'' ''x'' 3],
          warnedUsers = [], kickedUsers = [], bannedUsers = [] \<rparr>)) =
     [cached ''m3'' ''g1'' ''bob'' ''x'' 3]"
  using purge_is_not_guild_scoped
    [of Kick "constructor noOptions" "clock 5" "aliceSays ''m4'' ''x'' 5" aliceMember "[]"
      "\<lparr> messages = [cached ''m1'' ''g1'' ''alice'' ''x'' 1, cached ''m2'' ''g2'' ''alice'' ''y'' 2,
                      cached ''m3'' ''g1'' ''bob'' ''x'' 3],
          warnedUsers = [], kickedUsers = [], bannedUsers = [] \<rparr>" "''g2''"]
  by (simp add: aliceSays_def alice_def cached_def)

section \<open>C10: a member leaves\<close>

text \<open>
  C10. When the guild of the leaving member is not ignored, \<open>userleave\<close> returns true,
  removes every entry of that member from the lists of warned, kicked and banned users,
  keeps the entries of every other user and leaves the cached messages as they are. When
  the guild is ignored it returns false and the cache is unchanged.
\<close>

theorem userleave_clears_sanctions_only:
  "(isGuildIgnored opts (leaving_guild member) \<longrightarrow>
      userleave opts member cache = (False, cache))
   \<and> (\<not> isGuildIgnored opts (leaving_guild member) \<longrightarrow>
      fst (userleave opts member cache) = True
      \<and> messages (snd (userleave opts member cache)) = messages cache
      \<and> warnedUsers (snd (userleave opts member cache)) =
          filter (\<lambda>u. u \<noteq> leaving_userId member) (warnedUsers cache)
      \<and> kickedUsers (snd (userleave opts member cache)) =
          filter (\<lambda>u. u \<noteq> leaving_userId member) (kickedUsers cache)
      \<and> bannedUsers (snd (userleave opts member cache)) =
          filter (\<lambda>u. u \<noteq> leaving_userId member) (bannedUsers cache)
      \<and> leaving_userId member \<notin> set (warnedUsers (snd (userleave opts member cache)))
      \<and> leaving_userId member \<notin> set (kickedUsers (snd (userleave opts member cache)))
      \<and> leaving_userId member \<notin> set (bannedUsers (snd (userleave opts member cache))))"
  by (simp add: userleave_def Let_def)

theorem userleave_clears_sanctions_only_witness:
  "\<not> isGuildIgnored (constructor noOptions) (leaving_guild leavingAlice)
   \<and> userleave (constructor noOptions) leavingAlice
       \<lparr> messages = [cached ''m1'' ''g1'' ''alice'' ''x'' 1],
         warnedUsers = [''alice'', ''bob''], kickedUsers = [''alice''],
         bannedUsers = [''bob'', ''alice'', ''alice''] \<rparr> =
       (True, \<lparr> messages = [cached ''m1'' ''g1'' ''alice'' ''x'' 1],
         warnedUsers = [''bob''], kickedUsers = [], bannedUsers = [''bob''] \<rparr>)
   \<and> isGuildIgnored ((constructor noOptions)\<lparr>ignoredGuilds := IdList [''g1'']\<rparr>)
       (leaving_guild leavingAlice)
   \<and> userleave ((constructor noOptions)\<lparr>ignoredGuilds := IdList [''g1'']\<rparr>) leavingAlice
       \<lparr> messages = [], warnedUsers = [''alice''], kickedUsers = [], bannedUsers = [] \<rparr> =
       (False, \<lparr> messages = [], warnedUsers = [''alice''], kickedUsers = [], bannedUsers = [] \<rparr>)"
proof -
  have a: "\<not> isGuildIgnored (constructor noOptions) (leaving_guild leavingAlice)"
    by (simp add: isGuildIgnored_def leavingAlice_def example_defs)
  have b: "isGuildIgnored ((constructor noOptions)\<lparr>ignoredGuilds := IdList [''g1'']\<rparr>)
       (leaving_guild leavingAlice)"
    by (simp add: isGuildIgnored_def leavingAlice_def example_defs)
  have "userleave (constructor noOptions) leavingAlice
       \<lparr> messages = [cached ''m1'' ''g1'' ''alice'' ''x'' 1],
         warnedUsers = [''alice'', ''bob''], kickedUsers = [''alice''],
         bannedUsers = [''bob'', ''alice'', ''alice''] \<rparr> =
       (True, \<lparr> messages = [cached ''m1'' ''g1'' ''alice'' ''x'' 1],
         warnedUsers = [''bob''], kickedUsers = [], bannedUsers = [''bob''] \<rparr>)"
    using a userleave_clears_sanctions_only [of "constructor noOptions" leavingAlice
       "\<lparr> messages = [cached ''m1'' ''g1'' ''alice'' ''x'' 1],
         warnedUsers = [''alice'', ''bob''], kickedUsers = [''alice''],
         bannedUsers = [''bob'', ''alice'', ''alice''] \<rparr>"]
    by (simp add: leavingAlice_def prod_eq_iff)
  moreover have "userleave ((constructor noOptions)\<lparr>ignoredGuilds := IdList [''g1'']\<rparr>) leavingAlice
       \<lparr> messages = [], warnedUsers = [''alice''], kickedUsers = [], bannedUsers = [] \<rparr> =
       (False, \<lparr> messages = [], warnedUsers = [''alice''], kickedUsers = [], bannedUsers = [] \<rparr>)"
    using b userleave_clears_sanctions_only
      [of "(constructor noOptions)\<lparr>ignoredGuilds := IdList [''g1'']\<rparr>" leavingAlice
        "\<lparr> messages = [], warnedUsers = [''alice''], kickedUsers = [], bannedUsers = [] \<rparr>"]
    by simp
  ultimately show ?thesis using a b by simp
qed

section \<open>C7: what the option \<open>removeMessages\<close> decides\<close>

text \<open>
  C7 as stated fails. First event: \<open>removeMessages\<close> is false and the ban threshold of 2
  is reached; the ban still drops every cached record of the author, in both guilds.
  Second event: \<open>removeMessages\<close> is true and the warn threshold of 2 is reached; the
  warning keeps the author's records in the cache.
\<close>

theorem removeMessages_purge_counterexample:
  "removeMessages (constructor (ipwarnOptions\<lparr>removeMessages_opt := Some False,
       banThreshold_opt := Some 2\<rparr>)) = False
   \<and> message (constructor (ipwarnOptions\<lparr>removeMessages_opt := Some False,
          banThreshold_opt := Some 2\<rparr>))
       (clock 1000) (aliceSays ''m3'' ''hello'' 1000)
       \<lparr> messages = [cached ''m1'' ''g2'' ''alice'' ''old'' 100,
                     cached ''m2'' ''g1'' ''alice'' ''hi'' 900],
         warnedUsers = [], kickedUsers = [], bannedUsers = [] \<rparr> =
     Inr (True,
          \<lparr> messages = [], warnedUsers = [], kickedUsers = [], bannedUsers = [''alice''] \<rparr>,
          [MemberBan ''alice'' 86400, SendActionMessage ''ban'',
           Emit banAdd ''alice'' ''c1'' ''m3''])
   \<and> removeMessages (constructor (ipwarnOptions\<lparr>warnThreshold_opt := Some 2\<rparr>)) = True
   \<and> message (constructor (ipwarnOptions\<lparr>warnThreshold_opt := Some 2\<rparr>))
       (clock 1000) (aliceSays ''m3'' ''hello'' 1000)
       \<lparr> messages = [cached ''m2'' ''g1'' ''alice'' ''hi'' 900],
         warnedUsers = [], kickedUsers = [], bannedUsers = [] \<rparr> =
     Inr (True,
          \<lparr> messages = [cached ''m2'' ''g1'' ''alice'' ''hi'' 900,
                        cached ''m3'' ''g1'' ''alice'' ''hello'' 1000],
            warnedUsers = [''alice''], kickedUsers = [], bannedUsers = [] \<rparr>,
          [ClearSpamMessages [cached ''m3'' ''g1'' ''alice'' ''hello'' 1000,
                              cached ''m2'' ''g1'' ''alice'' ''hi'' 900],
           SendActionMessage ''warn'', Emit warnAdd ''alice'' ''c1'' ''m3''])"
  by (simp add: message_defs example_defs ipwarnOptions_def)

text \<open>
  C7, amended. The ban, mute and kick methods always drop the author's records from the
  cache, whatever \<open>removeMessages\<close> says, and the warn method never does. What
  \<open>removeMessages\<close> decides, for all four tiers, is whether the spam messages handed to the
  method are passed to \<^verbatim>\<open>clearSpamMessages\<close> for deletion on the platform.
\<close>

theorem removeMessages_only_gates_deletion:
  "messages (fst (sanctionOf opts env msg member t sp cache)) =
     (if t = Warn then messages cache
      else filter (\<lambda>u. authorID u \<noteq> user_id (msg_author msg)) (messages cache))
   \<and> (ClearSpamMessages sp \<in> set (fst (snd (sanctionOf opts env msg member t sp cache)))) =
       removeMessages opts"
  by (simp add: sanction_messages sanction_clears)

theorem removeMessages_only_gates_deletion_witness:
  "messages (fst (sanctionOf ((constructor noOptions)\<lparr>removeMessages := False\<rparr>) (clock 5)
      (aliceSays ''m2'' ''x'' 5) aliceMember Mute [cached ''m1'' ''g1'' ''alice'' ''x'' 1]
      \<lparr> messages = [cached ''m1'' ''g1'' ''alice'' ''x'' 1], warnedUsers = [],
        kickedUsers = [], bannedUsers = [] \<rparr>)) = []
   \<and> ClearSpamMessages [cached ''m1'' ''g1'' ''alice'' ''x'' 1] \<notin>
       set (fst (snd (sanctionOf ((constructor noOptions)\<lparr>removeMessages := False\<rparr>) (clock 5)
      (aliceSays ''m2'' ''x'' 5) aliceMember Mute [cached ''m1'' ''g1'' ''alice'' ''x'' 1]
      \<lparr> messages = [cached ''m1'' ''g1'' ''alice'' ''x'' 1], warnedUsers = [],
        kickedUsers = [], bannedUsers = [] \<rparr>)))"
  using removeMessages_only_gates_deletion
    [of "(constructor noOptions)\<lparr>removeMessages := False\<rparr>" "clock 5"
      "aliceSays ''m2'' ''x'' 5" aliceMember Mute "[cached ''m1'' ''g1'' ''alice'' ''x'' 1]"
      "\<lparr> messages = [cached ''m1'' ''g1'' ''alice'' ''x'' 1], warnedUsers = [],
        kickedUsers = [], bannedUsers = [] \<rparr>"]
  by (simp add: aliceSays_def alice_def cached_def)

section \<open>C4: the order of the tier checks\<close>

text \<open>
  Where the tier checks run, the method does what C4 says. For an admitted event with
  \<open>ipwarnEnabled\<close> set, the tiers are tried in the order ban, mute, kick, warn; a tier is
  met when it is enabled, no earlier sanction of the same tier is recorded for the author
  (mute has no such record) and the window count reaches its count threshold or the
  duplicate count reaches its duplicate threshold; a tier that is not met is passed over;
  the first tier that is met has its sanction method called, with the window matches when
  the count threshold is reached and with the duplicates otherwise, and the method returns
  true; when no tier is met it returns false. At most one tier fires, so at most one event
  is emitted.
\<close>

theorem tiers_checked_in_order:
  assumes "admission opts env msg = Inr (Some (guild, member))"
    and "ipwarnEnabled opts"
  shows "message opts env msg cache =
           Inr (fired opts env msg member (spamNow opts env msg guild cache)
                  (duplicatesNow opts msg guild cache) (otherNow opts msg guild cache)
                  (pushed msg guild cache) (ipwarn msg)
                  (selectedNow opts env msg guild cache))
         \<and> selectedNow opts env msg guild cache =
             find (tierMet opts (pushed msg guild cache) (user_id (msg_author msg))
                     (int (length (spamNow opts env msg guild cache)))
                     (int (length (duplicatesNow opts msg guild cache))))
               [Ban, Mute, Kick, Warn]
         \<and> length (filter isEmit
              (snd (snd (fired opts env msg member (spamNow opts env msg guild cache)
                  (duplicatesNow opts msg guild cache) (otherNow opts msg guild cache)
                  (pushed msg guild cache) (ipwarn msg)
                  (selectedNow opts env msg guild cache))))) \<le> 1"
proof -
  have "message opts env msg cache = Inr (detect opts env msg guild member cache)"
    using assms(1) by (rule message_admitted)
  then have m: "message opts env msg cache =
           Inr (fired opts env msg member (spamNow opts env msg guild cache)
                  (duplicatesNow opts msg guild cache) (otherNow opts msg guild cache)
                  (pushed msg guild cache) (ipwarn msg)
                  (selectedNow opts env msg guild cache))"
    using assms(2) by (simp add: detect_select)
  have e: "length (filter isEmit
              (snd (snd (fired opts env msg member sp du ot c (ipwarn msg) sel)))) \<le> 1"
    for sp du ot c sel
    by (cases sel) (simp_all add: fired_effects ipwarn_no_emit sanction_emits_once [unfolded One_nat_def])
  show ?thesis using m e by (simp add: selectedNow_def selectTier_def)
qed

theorem tiers_checked_in_order_witness:
  "admission ((constructor ipwarnOptions)\<lparr>muteEnabled := False\<rparr>) (clock 1004)
      (aliceSays ''m5'' ''e'' 1004) = Inr (Some (exampleGuild, aliceMember))
   \<and> ipwarnEnabled ((constructor ipwarnOptions)\<lparr>muteEnabled := False\<rparr>)
   \<and> selectedNow ((constructor ipwarnOptions)\<lparr>muteEnabled := False\<rparr>) (clock 1004)
       (aliceSays ''m5'' ''e'' 1004) exampleGuild
       \<lparr> messages = [cached ''m1'' ''g1'' ''alice'' ''a'' 1000,
                     cached ''m2'' ''g1'' ''alice'' ''b'' 1001,
                     cached ''m3'' ''g1'' ''alice'' ''c'' 1002,
                     cached ''m4'' ''g1'' ''alice'' ''d'' 1003],
         warnedUsers = [], kickedUsers = [''alice''], bannedUsers = [] \<rparr> = Some Warn
   \<and> message ((constructor ipwarnOptions)\<lparr>muteEnabled := False\<rparr>) (clock 1004)
       (aliceSays ''m5'' ''e'' 1004)
       \<lparr> messages = [cached ''m1'' ''g1'' ''alice'' ''a'' 1000,
                     cached ''m2'' ''g1'' ''alice'' ''b'' 1001,
                     cached ''m3'' ''g1'' ''alice'' ''c'' 1002,
                     cached ''m4'' ''g1'' ''alice'' ''d'' 1003],
         warnedUsers = [], kickedUsers = [''alice''], bannedUsers = [] \<rparr> =
     Inr (True,
          \<lparr> messages = [cached ''m1'' ''g1'' ''alice'' ''a'' 1000,
                     cached ''m2'' ''g1'' ''alice'' ''b'' 1001,
                     cached ''m3'' ''g1'' ''alice'' ''c'' 1002,
                     cached ''m4'' ''g1'' ''alice'' ''d'' 1003,
                     cached ''m5'' ''g1'' ''alice'' ''e'' 1004],
            warnedUsers = [''alice''], kickedUsers = [''alice''], bannedUsers = [] \<rparr>,
          [ClearSpamMessages [cached ''m5'' ''g1'' ''alice'' ''e'' 1004,
                     cached ''m4'' ''g1'' ''alice'' ''d'' 1003,
                     cached ''m3'' ''g1'' ''alice'' ''c'' 1002,
                     cached ''m2'' ''g1'' ''alice'' ''b'' 1001,
                     cached ''m1'' ''g1'' ''alice'' ''a'' 1000],
           SendActionMessage ''warn'', Emit warnAdd ''alice'' ''c1'' ''m5''])"
proof -
  let ?opts = "(constructor ipwarnOptions)\<lparr>muteEnabled := False\<rparr>"
  let ?msg = "aliceSays ''m5'' ''e'' 1004"
  let ?cache = "\<lparr> messages = [cached ''m1'' ''g1'' ''alice'' ''a'' 1000,
                     cached ''m2'' ''g1'' ''alice'' ''b'' 1001,
                     cached ''m3'' ''g1'' ''alice'' ''c'' 1002,
                     cached ''m4'' ''g1'' ''alice'' ''d'' 1003],
         warnedUsers = [], kickedUsers = [''alice''], bannedUsers = [] \<rparr>"
  have adm: "admission ?opts (clock 1004) ?msg = Inr (Some (exampleGuild, aliceMember))"
    by (simp add: example_defs ipwarnOptions_def admission_def isMemberIgnored_def
        isGuildIgnored_def isChannelIgnored_def memberHasIgnoredRoles_def)
  have on: "ipwarnEnabled ?opts"
    by (simp add: example_defs ipwarnOptions_def)
  have sel: "selectedNow ?opts (clock 1004) ?msg exampleGuild ?cache = Some Warn"
    by (simp add: message_defs example_defs ipwarnOptions_def selectedNow_def selectTier_def
        tierMet_def eligible_def countThreshold_def duplicateThreshold_def spamNow_def
        duplicatesNow_def cachedNow_def pushed_def)
  have "message ?opts (clock 1004) ?msg ?cache =
           Inr (fired ?opts (clock 1004) ?msg aliceMember
                  (spamNow ?opts (clock 1004) ?msg exampleGuild ?cache)
                  (duplicatesNow ?opts ?msg exampleGuild ?cache)
                  (otherNow ?opts ?msg exampleGuild ?cache)
                  (pushed ?msg exampleGuild ?cache) (ipwarn ?msg) (Some Warn))"
    using tiers_checked_in_order [OF adm on, of ?cache] sel by simp
  then show ?thesis
    using adm on sel
    by (simp add: fired_def sanctionOf_def countThreshold_def spamNow_def duplicatesNow_def
        otherNow_def cachedNow_def pushed_def message_defs example_defs ipwarnOptions_def)
qed

text \<open>
  C4. The claim: for every admitted message event the tiers are checked in the order ban,
  mute, kick, warn and the first eligible tier whose threshold is reached fires. The code
  fails it on this admitted event. The options are the constructor's defaults, so
  \<open>ipwarnEnabled\<close> is false while all four tiers are enabled; with six messages of the
  author inside the window the seventh reaches the ban threshold of 7 and the ban tier is
  eligible, yet \<^verbatim>\<open>message\<close> returns false before any tier is checked and nothing fires.
  The same event with \<open>ipwarnEnabled\<close> set bans the author.
\<close>

theorem tier_checks_skipped_by_default:
  "admission (constructor noOptions) (clock 1006) (aliceSays ''m7'' ''g'' 1006) =
     Inr (Some (exampleGuild, aliceMember))
   \<and> ipwarnEnabled (constructor noOptions) = False
   \<and> selectedNow (constructor noOptions) (clock 1006) (aliceSays ''m7'' ''g'' 1006) exampleGuild
       \<lparr> messages = [cached ''m1'' ''g1'' ''alice'' ''a'' 1000,
                     cached ''m2'' ''g1'' ''alice'' ''b'' 1001,
                     cached ''m3'' ''g1'' ''alice'' ''c'' 1002,
                     cached ''m4'' ''g1'' ''alice'' ''d'' 1003,
                     cached ''m5'' ''g1'' ''alice'' ''e'' 1004,
                     cached ''m6'' ''g1'' ''alice'' ''f'' 1005],
         warnedUsers = [], kickedUsers = [], bannedUsers = [] \<rparr> = Some Ban
   \<and> message (constructor noOptions) (clock 1006) (aliceSays ''m7'' ''g'' 1006)
       \<lparr> messages = [cached ''m1'' ''g1'' ''alice'' ''a'' 1000,
                     cached ''m2'' ''g1'' ''alice'' ''b'' 1001,
                     cached ''m3'' ''g1'' ''alice'' ''c'' 1002,
                     cached ''m4'' ''g1'' ''alice'' ''d'' 1003,
                     cached ''m5'' ''g1'' ''alice'' ''e'' 1004,
                     cached ''m6'' ''g1'' ''alice'' ''f'' 1005],
         warnedUsers = [], kickedUsers = [], bannedUsers = [] \<rparr> =
     Inr (False,
          \<lparr> messages = [cached ''m1'' ''g1'' ''alice'' ''a'' 1000,
                     cached ''m2'' ''g1'' ''alice'' ''b'' 1001,
                     cached ''m3'' ''g1'' ''alice'' ''c'' 1002,
                     cached ''m4'' ''g1'' ''alice'' ''d'' 1003,
                     cached ''m5'' ''g1'' ''alice'' ''e'' 1004,
                     cached ''m6'' ''g1'' ''alice'' ''f'' 1005,
                     cached ''m7'' ''g1'' ''alice'' ''g'' 1006],
            warnedUsers = [], kickedUsers = [], bannedUsers = [] \<rparr>, [])
   \<and> message (constructor ipwarnOptions) (clock 1006) (aliceSays ''m7'' ''g'' 1006)
       \<lparr> messages = [cached ''m1'' ''g1'' ''alice'' ''a'' 1000,
                     cached ''m2'' ''g1'' ''alice'' ''b'' 1001,
                     cached ''m3'' ''g1'' ''alice'' ''c'' 1002,
                     cached ''m4'' ''g1'' ''alice'' ''d'' 1003,
                     cached ''m5'' ''g1'' ''alice'' ''e'' 1004,
                     cached ''m6'' ''g1'' ''alice'' ''f'' 1005],
         warnedUsers = [], kickedUsers = [], bannedUsers = [] \<rparr> =
     Inr (True,
          \<lparr> messages = [], warnedUsers = [], kickedUsers = [], bannedUsers = [''alice''] \<rparr>,
          [ClearSpamMessages [cached ''m7'' ''g1'' ''alice'' ''g'' 1006,
                     cached ''m6'' ''g1'' ''alice'' ''f'' 1005,
                     cached ''m5'' ''g1'' ''alice'' ''e'' 1004,
                     cached ''m4'' ''g1'' ''alice'' ''d'' 1003,
                     cached ''m3'' ''g1'' ''alice'' ''c'' 1002,
                     cached ''m2'' ''g1'' ''alice'' ''b'' 1001,
                     cached ''m1'' ''g1'' ''alice'' ''a'' 1000],
           MemberBan ''alice'' 86400, SendActionMessage ''ban'',
           Emit banAdd ''alice'' ''c1'' ''m7''])"
  by (simp add: message_defs example_defs ipwarnOptions_def selectedNow_def selectTier_def
      tierMet_def eligible_def countThreshold_def duplicateThreshold_def spamNow_def
      duplicatesNow_def cachedNow_def pushed_def)

section \<open>C6: a sanction that is denied\<close>

lemma sanction_refused:
  assumes "refusedBeforeCall t msg member"
  shows "fst (snd (sanctionOf opts env msg member t sp c)) =
           clearedFor opts sp @ errorText opts msg t"
    and "snd (snd (sanctionOf opts env msg member t sp c)) = Resolved False"
  using assms
  by (cases t; simp add: refusedBeforeCall_def clearedFor_def errorText_def sanctionOf_def
        banUser_def muteUser_def kickUser_def Let_def)+

lemma refused_quiet:
  "\<not> list_ex isEmit (clearedFor opts sp @ errorText opts msg t)"
  "\<not> list_ex isModerationCall (clearedFor opts sp @ errorText opts msg t)"
  by (cases t; simp add: clearedFor_def errorText_def)+

lemma sanction_rejected:
  assumes "rejectedByPlatform t env msg member"
  shows "list_ex isModerationCall (fst (snd (sanctionOf opts env msg member t sp c)))"
    and "t = Ban \<Longrightarrow> snd (snd (sanctionOf opts env msg member t sp c)) = Resolved True"
    and "t = Ban \<Longrightarrow> list_ex isEmit (fst (snd (sanctionOf opts env msg member t sp c)))"
    and "t \<noteq> Ban \<Longrightarrow> snd (snd (sanctionOf opts env msg member t sp c)) = Rejected"
    and "t \<noteq> Ban \<Longrightarrow> \<not> list_ex isEmit (fst (snd (sanctionOf opts env msg member t sp c)))"
  using assms
  by (cases t; auto simp add: rejectedByPlatform_def sanctionOf_def banUser_def muteUser_def
        kickUser_def Let_def)+

lemma sanction_one_call:
  "length (filter isModerationCall (fst (snd (sanctionOf opts env msg member t sp c)))) \<le> 1"
  by (cases t)
     (auto simp add: sanctionOf_def banUser_def muteUser_def kickUser_def warnUser_def Let_def
        split: option.splits)

lemma ipwarn_quiet:
  "\<not> list_ex isEmit (ipwarn msg)" "\<not> list_ex isModerationCall (ipwarn msg)"
  "filter isModerationCall (ipwarn msg) = []"
  by (simp_all add: ipwarn_def)

text \<open>
  C6 as stated fails. The member is not bannable and the ban threshold of 2 is reached:
  the ban method records the author in \<open>bannedUsers\<close>, hands the spam messages to
  \<^verbatim>\<open>clearSpamMessages\<close>, sends the error text and resolves to false, but \<^verbatim>\<open>message\<close>
  does not read that result and returns true.
\<close>

theorem denied_ban_counterexample:
  "bannable (aliceMember\<lparr>bannable := False\<rparr>) = False
   \<and> message (constructor (ipwarnOptions\<lparr>banThreshold_opt := Some 2\<rparr>)) (clock 1000)
       ((aliceSays ''m2'' ''hello'' 1000)\<lparr>msg_member := Some (aliceMember\<lparr>bannable := False\<rparr>)\<rparr>)
       \<lparr> messages = [cached ''m1'' ''g1'' ''alice'' ''hi'' 900],
         warnedUsers = [], kickedUsers = [], bannedUsers = [] \<rparr> =
     Inr (True,
          \<lparr> messages = [], warnedUsers = [], kickedUsers = [], bannedUsers = [''alice''] \<rparr>,
          [ClearSpamMessages [cached ''m2'' ''g1'' ''alice'' ''hello'' 1000,
                              cached ''m1'' ''g1'' ''alice'' ''hi'' 900],
           SendErrorMessage ''banErrorMessage''])"
  by (simp add: message_defs example_defs ipwarnOptions_def)

text \<open>
  C6, amended. Let the tier that fires for an admitted event be denied: either the method's
  own check fails (the member is not bannable, not kickable, or cannot be muted) and it
  gives up before calling the platform, or the platform rejects the ban, kick or timeout
  call. Then \<^verbatim>\<open>message\<close> returns true all the same: it reports that a threshold was
  reached and never reads the result of the sanction method. A ban or a kick is recorded in
  \<open>bannedUsers\<close> or \<open>kickedUsers\<close> before the attempt, which makes that tier ineligible for
  the author from then on, so it is not tried again; a mute records nothing. At most one
  ban, kick or timeout call is made for the event.

  When the method gives up before the call, it resolves to false, makes no ban, kick or
  timeout call and emits no event; what it still does is hand the spam messages to
  \<^verbatim>\<open>clearSpamMessages\<close> when \<open>removeMessages\<close> is set and post the error text when
  \<open>errorMessages\<close> is set and the channel is a guild text channel. When the platform
  rejects the call, the call has been made; a rejected ban still emits \<open>banAdd\<close> and the
  method resolves to true, while a rejected kick or timeout rejects the method and no
  event is emitted.
\<close>

theorem denied_sanction_still_triggers:
  assumes "admission opts env msg = Inr (Some (guild, member))"
    and "ipwarnEnabled opts"
    and "selectedNow opts env msg guild cache = Some t"
    and "refusedBeforeCall t msg member \<or> rejectedByPlatform t env msg member"
  shows "\<exists>c' issued settled sp.
           sanctionOf opts env msg member t sp (pushed msg guild cache) = (c', issued, settled)
           \<and> message opts env msg cache = Inr (True, c', ipwarn msg @ issued)
           \<and> (t = Ban \<longrightarrow> user_id (msg_author msg) \<in> set (bannedUsers c'))
           \<and> (t = Kick \<longrightarrow> user_id (msg_author msg) \<in> set (kickedUsers c'))
           \<and> (t = Mute \<longrightarrow> warnedUsers c' = warnedUsers cache
                 \<and> kickedUsers c' = kickedUsers cache \<and> bannedUsers c' = bannedUsers cache)
           \<and> (t \<noteq> Mute \<longrightarrow> \<not> eligible opts c' (user_id (msg_author msg)) t)
           \<and> length (filter isModerationCall (ipwarn msg @ issued)) \<le> 1
           \<and> (refusedBeforeCall t msg member \<longrightarrow>
                 settled = Resolved False
                 \<and> issued = clearedFor opts sp @ errorText opts msg t
                 \<and> \<not> list_ex isModerationCall (ipwarn msg @ issued)
                 \<and> \<not> list_ex isEmit (ipwarn msg @ issued))
           \<and> (rejectedByPlatform t env msg member \<longrightarrow>
                 list_ex isModerationCall issued
                 \<and> (t = Ban \<longrightarrow> settled = Resolved True \<and> list_ex isEmit issued)
                 \<and> (t \<noteq> Ban \<longrightarrow> settled = Rejected \<and> \<not> list_ex isEmit (ipwarn msg @ issued)))"
proof -
  define sp where "sp =
    (if int (length (spamNow opts env msg guild cache)) \<ge> countThreshold opts t
     then spamNow opts env msg guild cache
     else duplicatesNow opts msg guild cache @ otherNow opts msg guild cache)"
  obtain c' issued settled where
    sa: "sanctionOf opts env msg member t sp (pushed msg guild cache) = (c', issued, settled)"
    by (cases "sanctionOf opts env msg member t sp (pushed msg guild cache)") auto
  have c': "c' = fst (sanctionOf opts env msg member t sp (pushed msg guild cache))"
    and issued: "issued = fst (snd (sanctionOf opts env msg member t sp (pushed msg guild cache)))"
    and settled: "settled = snd (snd (sanctionOf opts env msg member t sp (pushed msg guild cache)))"
    using sa by simp_all
  have "message opts env msg cache = Inr (detect opts env msg guild member cache)"
    using assms(1) by (rule message_admitted)
  then have m: "message opts env msg cache = Inr (True, c', ipwarn msg @ issued)"
    using assms(2,3) sa by (simp add: detect_select fired_def sp_def)
  have w: "t \<noteq> Warn"
    using assms(4) by (auto simp add: refusedBeforeCall_def rejectedByPlatform_def)
  have b: "t = Ban \<longrightarrow> user_id (msg_author msg) \<in> set (bannedUsers c')"
    by (simp add: c' sanction_bannedUsers)
  have k: "t = Kick \<longrightarrow> user_id (msg_author msg) \<in> set (kickedUsers c')"
    by (simp add: c' sanction_kickedUsers)
  have u: "t = Mute \<longrightarrow> warnedUsers c' = warnedUsers cache
      \<and> kickedUsers c' = kickedUsers cache \<and> bannedUsers c' = bannedUsers cache"
    by (simp add: c' sanction_bannedUsers sanction_kickedUsers sanction_warnedUsers pushed_def)
  have g: "t \<noteq> Mute \<longrightarrow> \<not> eligible opts c' (user_id (msg_author msg)) t"
    using w b k by (cases t) (simp_all add: eligible_def)
  have one: "length (filter isModerationCall (ipwarn msg @ issued)) \<le> 1"
    using sanction_one_call [of opts env msg member t sp "pushed msg guild cache"]
    by (simp add: issued ipwarn_quiet)
  have ref: "refusedBeforeCall t msg member \<longrightarrow>
      settled = Resolved False
      \<and> issued = clearedFor opts sp @ errorText opts msg t
      \<and> \<not> list_ex isModerationCall (ipwarn msg @ issued)
      \<and> \<not> list_ex isEmit (ipwarn msg @ issued)"
  proof
    assume r: "refusedBeforeCall t msg member"
    have i: "issued = clearedFor opts sp @ errorText opts msg t"
      unfolding issued using r by (rule sanction_refused(1))
    have s: "settled = Resolved False"
      unfolding settled using r by (rule sanction_refused(2))
    have "\<not> list_ex isModerationCall (ipwarn msg @ issued)"
      "\<not> list_ex isEmit (ipwarn msg @ issued)"
      using refused_quiet [of opts sp msg t] ipwarn_quiet(1,2) [of msg]
      by (simp_all add: i)
    then show "settled = Resolved False
      \<and> issued = clearedFor opts sp @ errorText opts msg t
      \<and> \<not> list_ex isModerationCall (ipwarn msg @ issued)
      \<and> \<not> list_ex isEmit (ipwarn msg @ issued)"
      using i s by simp
  qed
  have rej: "rejectedByPlatform t env msg member \<longrightarrow>
      list_ex isModerationCall issued
      \<and> (t = Ban \<longrightarrow> settled = Resolved True \<and> list_ex isEmit issued)
      \<and> (t \<noteq> Ban \<longrightarrow> settled = Rejected \<and> \<not> list_ex isEmit (ipwarn msg @ issued))"
  proof
    assume r: "rejectedByPlatform t env msg member"
    show "list_ex isModerationCall issued
      \<and> (t = Ban \<longrightarrow> settled = Resolved True \<and> list_ex isEmit issued)
      \<and> (t \<noteq> Ban \<longrightarrow> settled = Rejected \<and> \<not> list_ex isEmit (ipwarn msg @ issued))"
      unfolding issued settled
      using sanction_rejected [OF r, of opts sp "pushed msg guild cache"] ipwarn_quiet(1) [of msg]
      by simp
  qed
  show ?thesis
    using sa m b k u g one ref rej by blast
qed

theorem denied_sanction_still_triggers_witness:
  "admission (constructor (ipwarnOptions\<lparr>kickThreshold_opt := Some 2\<rparr>)) (clock 1000)
      ((aliceSays ''m2'' ''hello'' 1000)\<lparr>msg_member := Some (aliceMember\<lparr>kickable := False\<rparr>)\<rparr>) =
     Inr (Some (exampleGuild, aliceMember\<lparr>kickable := False\<rparr>))
   \<and> ipwarnEnabled (constructor (ipwarnOptions\<lparr>kickThreshold_opt := Some 2\<rparr>))
   \<and> selectedNow (constructor (ipwarnOptions\<lparr>kickThreshold_opt := Some 2\<rparr>)) (clock 1000)
       ((aliceSays ''m2'' ''hello'' 1000)\<lparr>msg_member := Some (aliceMember\<lparr>kickable := False\<rparr>)\<rparr>)
       exampleGuild
       \<lparr> messages = [cached ''m1'' ''g1'' ''alice'' ''hi'' 900],
         warnedUsers = [], kickedUsers = [], bannedUsers = [] \<rparr> = Some Kick
   \<and> refusedBeforeCall Kick
       ((aliceSays ''m2'' ''hello'' 1000)\<lparr>msg_member := Some (aliceMember\<lparr>kickable := False\<rparr>)\<rparr>)
       (aliceMember\<lparr>kickable := False\<rparr>)
   \<and> (\<exists>c' issued.
         message (constructor (ipwarnOptions\<lparr>kickThreshold_opt := Some 2\<rparr>)) (clock 1000)
           ((aliceSays ''m2'' ''hello'' 1000)\<lparr>msg_member := Some (aliceMember\<lparr>kickable := False\<rparr>)\<rparr>)
           \<lparr> messages = [cached ''m1'' ''g1'' ''alice'' ''hi'' 900],
             warnedUsers = [], kickedUsers = [], bannedUsers = [] \<rparr> = Inr (True, c', issued)
         \<and> \<not> list_ex isEmit issued \<and> \<not> list_ex isModerationCall issued
         \<and> ''alice'' \<in> set (kickedUsers c'))
   \<and> rejectedByPlatform Ban ((clock 1000)\<lparr>banResolves := False\<rparr>)
         (aliceSays ''m2'' ''hello'' 1000) aliceMember
   \<and> selectedNow (constructor (ipwarnOptions\<lparr>banThreshold_opt := Some 2\<rparr>))
         ((clock 1000)\<lparr>banResolves := False\<rparr>) (aliceSays ''m2'' ''hello'' 1000) exampleGuild
         \<lparr> messages = [cached ''m1'' ''g1'' ''alice'' ''hi'' 900],
           warnedUsers = [], kickedUsers = [], bannedUsers = [] \<rparr> = Some Ban
   \<and> (\<exists>c' issued.
         message (constructor (ipwarnOptions\<lparr>banThreshold_opt := Some 2\<rparr>))
           ((clock 1000)\<lparr>banResolves := False\<rparr>) (aliceSays ''m2'' ''hello'' 1000)
           \<lparr> messages = [cached ''m1'' ''g1'' ''alice'' ''hi'' 900],
             warnedUsers = [], kickedUsers = [], bannedUsers = [] \<rparr> = Inr (True, c', issued)
         \<and> list_ex isEmit issued \<and> ''alice'' \<in> set (bannedUsers c'))
   \<and> message (constructor (ipwarnOptions\<lparr>banThreshold_opt := Some 2\<rparr>))
         ((clock 1000)\<lparr>banResolves := False\<rparr>) (aliceSays ''m2'' ''hello'' 1000)
         \<lparr> messages = [cached ''m1'' ''g1'' ''alice'' ''hi'' 900],
           warnedUsers = [], kickedUsers = [], bannedUsers = [] \<rparr> =
       Inr (True,
            \<lparr> messages = [], warnedUsers = [], kickedUsers = [], bannedUsers = [''alice''] \<rparr>,
            [ClearSpamMessages [cached ''m2'' ''g1'' ''alice'' ''hello'' 1000,
                                cached ''m1'' ''g1'' ''alice'' ''hi'' 900],
             MemberBan ''alice'' 86400, SendErrorMessage ''banErrorMessage'',
             SendActionMessage ''ban'', Emit banAdd ''alice'' ''c1'' ''m2''])"
proof -
  let ?kopts = "constructor (ipwarnOptions\<lparr>kickThreshold_opt := Some 2\<rparr>)"
  let ?kmsg = "(aliceSays ''m2'' ''hello'' 1000)\<lparr>msg_member := Some (aliceMember\<lparr>kickable := False\<rparr>)\<rparr>"
  let ?bopts = "constructor (ipwarnOptions\<lparr>banThreshold_opt := Some 2\<rparr>)"
  let ?benv = "(clock 1000)\<lparr>banResolves := False\<rparr>"
  let ?bmsg = "aliceSays ''m2'' ''hello'' 1000"
  let ?cache = "\<lparr> messages = [cached ''m1'' ''g1'' ''alice'' ''hi'' 900],
         warnedUsers = [], kickedUsers = [], bannedUsers = [] \<rparr>"
  have kadm: "admission ?kopts (clock 1000) ?kmsg =
      Inr (Some (exampleGuild, aliceMember\<lparr>kickable := False\<rparr>))"
    by (simp add: example_defs ipwarnOptions_def admission_def isMemberIgnored_def
        isGuildIgnored_def isChannelIgnored_def memberHasIgnoredRoles_def)
  have badm: "admission ?bopts ?benv ?bmsg = Inr (Some (exampleGuild, aliceMember))"
    by (simp add: example_defs ipwarnOptions_def admission_def isMemberIgnored_def
        isGuildIgnored_def isChannelIgnored_def memberHasIgnoredRoles_def)
  have kon: "ipwarnEnabled ?kopts" and bon: "ipwarnEnabled ?bopts"
    by (simp_all add: example_defs ipwarnOptions_def)
  have ksel: "selectedNow ?kopts (clock 1000) ?kmsg exampleGuild ?cache = Some Kick"
    by (simp add: message_defs example_defs ipwarnOptions_def selectedNow_def selectTier_def
        tierMet_def eligible_def countThreshold_def duplicateThreshold_def spamNow_def
        duplicatesNow_def cachedNow_def pushed_def)
  have bsel: "selectedNow ?bopts ?benv ?bmsg exampleGuild ?cache = Some Ban"
    by (simp add: message_defs example_defs ipwarnOptions_def selectedNow_def selectTier_def
        tierMet_def eligible_def countThreshold_def duplicateThreshold_def spamNow_def
        duplicatesNow_def cachedNow_def pushed_def)
  have kden: "refusedBeforeCall Kick ?kmsg (aliceMember\<lparr>kickable := False\<rparr>)"
    by (simp add: refusedBeforeCall_def)
  have bden: "rejectedByPlatform Ban ?benv ?bmsg aliceMember"
    by (simp add: rejectedByPlatform_def example_defs)
  have a: "user_id (msg_author ?kmsg) = ''alice''" "user_id (msg_author ?bmsg) = ''alice''"
    by (simp_all add: aliceSays_def alice_def)
  have kex: "\<exists>c' issued. message ?kopts (clock 1000) ?kmsg ?cache = Inr (True, c', issued)
         \<and> \<not> list_ex isEmit issued \<and> \<not> list_ex isModerationCall issued
         \<and> ''alice'' \<in> set (kickedUsers c')"
    using denied_sanction_still_triggers [OF kadm kon ksel disjI1 [OF kden]] kden a(1)
    by auto
  have bex: "\<exists>c' issued. message ?bopts ?benv ?bmsg ?cache = Inr (True, c', issued)
         \<and> list_ex isEmit issued \<and> ''alice'' \<in> set (bannedUsers c')"
    using denied_sanction_still_triggers [OF badm bon bsel disjI2 [OF bden]] bden a(2)
    by auto
  have bval: "message ?bopts ?benv ?bmsg ?cache =
       Inr (True,
            \<lparr> messages = [], warnedUsers = [], kickedUsers = [], bannedUsers = [''alice''] \<rparr>,
            [ClearSpamMessages [cached ''m2'' ''g1'' ''alice'' ''hello'' 1000,
                                cached ''m1'' ''g1'' ''alice'' ''hi'' 900],
             MemberBan ''alice'' 86400, SendErrorMessage ''banErrorMessage'',
             SendActionMessage ''ban'', Emit banAdd ''alice'' ''c1'' ''m2''])"
    by (simp add: message_defs example_defs ipwarnOptions_def)
  show ?thesis
    using kadm kon ksel kden kex bden bsel bex bval by (intro conjI) assumption+
qed

section \<open>C9: mute is not held back by earlier mutes\<close>

lemma mute_selected:
  assumes "muteEnabled opts"
    and "\<not> tierMet opts c a wc dc Ban"
    and "muteThreshold opts \<le> wc \<or> maxDuplicatesMute opts \<le> dc"
  shows "selectTier opts c a wc dc = Some Mute"
  using assms
  by (simp add: selectTier_def tierMet_def eligible_def countThreshold_def
      duplicateThreshold_def)

lemma muteUser_trackers:
  "warnedUsers (fst (muteUser opts env msg member sp c)) = warnedUsers c"
  "kickedUsers (fst (muteUser opts env msg member sp c)) = kickedUsers c"
  "bannedUsers (fst (muteUser opts env msg member sp c)) = bannedUsers c"
  using sanction_warnedUsers [of opts env msg member Mute sp c]
    sanction_kickedUsers [of opts env msg member Mute sp c]
    sanction_bannedUsers [of opts env msg member Mute sp c]
  by (simp_all add: sanctionOf_def)

lemma muteUser_timeout:
  assumes "userCanBeMuted msg" and "msg_member msg = Some mm"
  shows "MemberTimeout (member_id mm) (unMuteTime opts) \<in>
           set (fst (snd (muteUser opts env msg member sp c)))"
  using assms by (simp add: muteUser_def Let_def)

text \<open>
  Where the tier checks run, the method does what C9 says. For an admitted event with
  \<open>ipwarnEnabled\<close> set, when mute is enabled, the ban tier does not fire and the window
  count reaches \<open>muteThreshold\<close> or the duplicate count reaches \<open>maxDuplicatesMute\<close>, the
  method calls \<open>muteUser\<close> and returns true, whatever the cache records about the author:
  no assumption is made on the cache, and there is no list of muted users that could hold
  the author back. The call leaves \<open>warnedUsers\<close>, \<open>kickedUsers\<close> and \<open>bannedUsers\<close> as
  they were, and when the member can be muted it issues the timeout on the platform.
\<close>

theorem mute_has_no_gate:
  assumes "admission opts env msg = Inr (Some (guild, member))"
    and "ipwarnEnabled opts"
    and "muteEnabled opts"
    and "\<not> tierMet opts (pushed msg guild cache) (user_id (msg_author msg))
            (int (length (spamNow opts env msg guild cache)))
            (int (length (duplicatesNow opts msg guild cache))) Ban"
    and "muteThreshold opts \<le> int (length (spamNow opts env msg guild cache))
         \<or> maxDuplicatesMute opts \<le> int (length (duplicatesNow opts msg guild cache))"
  shows "\<exists>c' issued settled sp.
           muteUser opts env msg member sp (pushed msg guild cache) = (c', issued, settled)
           \<and> message opts env msg cache = Inr (True, c', ipwarn msg @ issued)
           \<and> warnedUsers c' = warnedUsers cache
           \<and> kickedUsers c' = kickedUsers cache
           \<and> bannedUsers c' = bannedUsers cache
           \<and> (userCanBeMuted msg \<longrightarrow>
                (\<forall>mm. msg_member msg = Some mm \<longrightarrow>
                   MemberTimeout (member_id mm) (unMuteTime opts) \<in> set issued))"
proof -
  define sp where "sp =
    (if int (length (spamNow opts env msg guild cache)) \<ge> countThreshold opts Mute
     then spamNow opts env msg guild cache
     else duplicatesNow opts msg guild cache @ otherNow opts msg guild cache)"
  obtain c' issued settled where
    mu: "muteUser opts env msg member sp (pushed msg guild cache) = (c', issued, settled)"
    by (cases "muteUser opts env msg member sp (pushed msg guild cache)") auto
  have sel: "selectedNow opts env msg guild cache = Some Mute"
    unfolding selectedNow_def using assms(3,4,5) by (rule mute_selected)
  have "message opts env msg cache = Inr (detect opts env msg guild member cache)"
    using assms(1) by (rule message_admitted)
  then have m: "message opts env msg cache = Inr (True, c', ipwarn msg @ issued)"
    using assms(2) sel mu
    by (simp add: detect_select fired_def sanctionOf_def sp_def)
  have tr: "warnedUsers c' = warnedUsers cache" "kickedUsers c' = kickedUsers cache"
    "bannedUsers c' = bannedUsers cache"
    using muteUser_trackers [of opts env msg member sp "pushed msg guild cache"] mu
    by (simp_all add: pushed_def)
  have ti: "userCanBeMuted msg \<longrightarrow>
      (\<forall>mm. msg_member msg = Some mm \<longrightarrow>
         MemberTimeout (member_id mm) (unMuteTime opts) \<in> set issued)"
    using muteUser_timeout [of msg _ opts env member sp "pushed msg guild cache"] mu
    by auto
  show ?thesis using mu m tr ti by blast
qed

theorem mute_has_no_gate_witness:
  "admission (constructor (ipwarnOptions\<lparr>muteThreshold_opt := Some 1\<rparr>)) (clock 9000)
      (aliceSays ''m2'' ''yo'' 9000) = Inr (Some (exampleGuild, aliceMember))
   \<and> ipwarnEnabled (constructor (ipwarnOptions\<lparr>muteThreshold_opt := Some 1\<rparr>))
   \<and> muteEnabled (constructor (ipwarnOptions\<lparr>muteThreshold_opt := Some 1\<rparr>))
   \<and> \<not> tierMet (constructor (ipwarnOptions\<lparr>muteThreshold_opt := Some 1\<rparr>))
          (pushed (aliceSays ''m2'' ''yo'' 9000) exampleGuild emptyCache) ''alice'' 1 1 Ban
   \<and> length (spamNow (constructor (ipwarnOptions\<lparr>muteThreshold_opt := Some 1\<rparr>)) (clock 9000)
         (aliceSays ''m2'' ''yo'' 9000) exampleGuild emptyCache) = 1
   \<and> length (duplicatesNow (constructor (ipwarnOptions\<lparr>muteThreshold_opt := Some 1\<rparr>))
         (aliceSays ''m2'' ''yo'' 9000) exampleGuild emptyCache) = 1
   \<and> muteThreshold (constructor (ipwarnOptions\<lparr>muteThreshold_opt := Some 1\<rparr>)) = 1
   \<and> (\<exists>c' issued.
         message (constructor (ipwarnOptions\<lparr>muteThreshold_opt := Some 1\<rparr>)) (clock 9000)
           (aliceSays ''m2'' ''yo'' 9000) emptyCache = Inr (True, c', issued)
         \<and> MemberTimeout ''alice'' 300000 \<in> set issued)
   \<and> feed (constructor (ipwarnOptions\<lparr>muteThreshold_opt := Some 1\<rparr>))
       [(clock 1000, aliceSays ''m1'' ''hi'' 1000), (clock 9000, aliceSays ''m2'' ''yo'' 9000)]
       emptyCache =
     (emptyCache,
      [Inr (True, [ClearSpamMessages [cached ''m1'' ''g1'' ''alice'' ''hi'' 1000],
                   MemberTimeout ''alice'' 300000, SendActionMessage ''mute'',
                   Emit muteAdd ''alice'' ''c1'' ''m1'']),
       Inr (True, [ClearSpamMessages [cached ''m2'' ''g1'' ''alice'' ''yo'' 9000],
                   MemberTimeout ''alice'' 300000, SendActionMessage ''mute'',
                   Emit muteAdd ''alice'' ''c1'' ''m2''])])"
proof -
  let ?opts = "constructor (ipwarnOptions\<lparr>muteThreshold_opt := Some 1\<rparr>)"
  let ?msg = "aliceSays ''m2'' ''yo'' 9000"
  have adm: "admission ?opts (clock 9000) ?msg = Inr (Some (exampleGuild, aliceMember))"
    by (simp add: example_defs ipwarnOptions_def admission_def isMemberIgnored_def
        isGuildIgnored_def isChannelIgnored_def memberHasIgnoredRoles_def)
  have on: "ipwarnEnabled ?opts" and mute: "muteEnabled ?opts"
    and thr: "muteThreshold ?opts = 1"
    by (simp_all add: example_defs ipwarnOptions_def)
  have sp: "length (spamNow ?opts (clock 9000) ?msg exampleGuild emptyCache) = 1"
    by (simp add: message_defs example_defs ipwarnOptions_def spamNow_def duplicatesNow_def
        cachedNow_def pushed_def)
  have du: "length (duplicatesNow ?opts ?msg exampleGuild emptyCache) = 1"
    by (simp add: message_defs example_defs ipwarnOptions_def duplicatesNow_def
        cachedNow_def pushed_def)
  have a: "user_id (msg_author ?msg) = ''alice''"
    by (simp add: aliceSays_def alice_def)
  have noBan: "\<not> tierMet ?opts (pushed ?msg exampleGuild emptyCache) ''alice'' 1 1 Ban"
    by (simp add: tierMet_def eligible_def countThreshold_def duplicateThreshold_def
        example_defs ipwarnOptions_def)
  have noBan': "\<not> tierMet ?opts (pushed ?msg exampleGuild emptyCache) (user_id (msg_author ?msg))
      (int (length (spamNow ?opts (clock 9000) ?msg exampleGuild emptyCache)))
      (int (length (duplicatesNow ?opts ?msg exampleGuild emptyCache))) Ban"
    using noBan by (simp add: sp du a)
  have cross: "muteThreshold ?opts \<le> int (length (spamNow ?opts (clock 9000) ?msg exampleGuild emptyCache))
      \<or> maxDuplicatesMute ?opts \<le> int (length (duplicatesNow ?opts ?msg exampleGuild emptyCache))"
    by (simp add: sp thr)
  have can: "userCanBeMuted ?msg" and mem: "msg_member ?msg = Some aliceMember"
    by (simp_all add: userCanBeMuted_def example_defs)
  have mid: "member_id aliceMember = ''alice''" and um: "unMuteTime ?opts = 300000"
    by (simp_all add: example_defs ipwarnOptions_def)
  have ex: "\<exists>c' issued. message ?opts (clock 9000) ?msg emptyCache = Inr (True, c', issued)
         \<and> MemberTimeout ''alice'' 300000 \<in> set issued"
    using mute_has_no_gate [OF adm on mute noBan' cross] can mem mid um
    by fastforce
  have fd: "feed ?opts
       [(clock 1000, aliceSays ''m1'' ''hi'' 1000), (clock 9000, aliceSays ''m2'' ''yo'' 9000)]
       emptyCache =
     (emptyCache,
      [Inr (True, [ClearSpamMessages [cached ''m1'' ''g1'' ''alice'' ''hi'' 1000],
                   MemberTimeout ''alice'' 300000, SendActionMessage ''mute'',
                   Emit muteAdd ''alice'' ''c1'' ''m1'']),
       Inr (True, [ClearSpamMessages [cached ''m2'' ''g1'' ''alice'' ''yo'' 9000],
                   MemberTimeout ''alice'' 300000, SendActionMessage ''mute'',
                   Emit muteAdd ''alice'' ''c1'' ''m2''])])"
    by (simp add: message_defs example_defs ipwarnOptions_def)
  show ?thesis
    using adm on mute noBan sp du thr ex fd by simp
qed

text \<open>
  C9. The claim: on every qualifying message event whose selected tier is mute (mute
  enabled and no higher tier fired) the mute is applied, whatever was applied before, and
  no muted-users flag is recorded. The code fails it on this admitted event. The options
  are the constructor's defaults, so \<open>ipwarnEnabled\<close> is false; mute is enabled, the
  fourth message of the author inside the window reaches the mute threshold of 4, the ban
  tier is not met and the ordered selection picks mute, yet \<^verbatim>\<open>message\<close> returns false
  and no mute is applied. The same event with \<open>ipwarnEnabled\<close> set mutes the author and
  records nothing.
\<close>

theorem mute_skipped_by_default:
  "admission (constructor noOptions) (clock 1003) (aliceSays ''m4'' ''d'' 1003) =
     Inr (Some (exampleGuild, aliceMember))
   \<and> ipwarnEnabled (constructor noOptions) = False
   \<and> muteEnabled (constructor noOptions)
   \<and> muteThreshold (constructor noOptions) = 4
   \<and> length (spamNow (constructor noOptions) (clock 1003) (aliceSays ''m4'' ''d'' 1003)
        exampleGuild
        \<lparr> messages = [cached ''m1'' ''g1'' ''alice'' ''a'' 1000,
                      cached ''m2'' ''g1'' ''alice'' ''b'' 1001,
                      cached ''m3'' ''g1'' ''alice'' ''c'' 1002],
          warnedUsers = [], kickedUsers = [], bannedUsers = [] \<rparr>) = 4
   \<and> selectedNow (constructor noOptions) (clock 1003) (aliceSays ''m4'' ''d'' 1003)
        exampleGuild
        \<lparr> messages = [cached ''m1'' ''g1'' ''alice'' ''a'' 1000,
                      cached ''m2'' ''g1'' ''alice'' ''b'' 1001,
                      cached ''m3'' ''g1'' ''alice'' ''c'' 1002],
          warnedUsers = [], kickedUsers = [], bannedUsers = [] \<rparr> = Some Mute
   \<and> message (constructor noOptions) (clock 1003) (aliceSays ''m4'' ''d'' 1003)
        \<lparr> messages = [cached ''m1'' ''g1'' ''alice'' ''a'' 1000,
                      cached ''m2'' ''g1'' ''alice'' ''b'' 1001,
                      cached ''m3'' ''g1'' ''alice'' ''c'' 1002],
          warnedUsers = [], kickedUsers = [], bannedUsers = [] \<rparr> =
      Inr (False,
           \<lparr> messages = [cached ''m1'' ''g1'' ''alice'' ''a'' 1000,
                      cached ''m2'' ''g1'' ''alice'' ''b'' 1001,
                      cached ''m3'' ''g1'' ''alice'' ''c'' 1002,
                      cached ''m4'' ''g1'' ''alice'' ''d'' 1003],
             warnedUsers = [], kickedUsers = [], bannedUsers = [] \<rparr>, [])
   \<and> message (constructor ipwarnOptions) (clock 1003) (aliceSays ''m4'' ''d'' 1003)
        \<lparr> messages = [cached ''m1'' ''g1'' ''alice'' ''a'' 1000,
                      cached ''m2'' ''g1'' ''alice'' ''b'' 1001,
                      cached ''m3'' ''g1'' ''alice'' ''c'' 1002],
          warnedUsers = [], kickedUsers = [], bannedUsers = [] \<rparr> =
      Inr (True,
           \<lparr> messages = [], warnedUsers = [], kickedUsers = [], bannedUsers = [] \<rparr>,
           [ClearSpamMessages [cached ''m4'' ''g1'' ''alice'' ''d'' 1003,
                      cached ''m3'' ''g1'' ''alice'' ''c'' 1002,
                      cached ''m2'' ''g1'' ''alice'' ''b'' 1001,
                      cached ''m1'' ''g1'' ''alice'' ''a'' 1000],
            MemberTimeout ''alice'' 300000, SendActionMessage ''mute'',
            Emit muteAdd ''alice'' ''c1'' ''m4''])"
  by (simp add: message_defs example_defs ipwarnOptions_def selectedNow_def selectTier_def
      tierMet_def eligible_def countThreshold_def duplicateThreshold_def spamNow_def
      duplicatesNow_def cachedNow_def pushed_def)

section \<open>C3: what a recorded ban gates\<close>

lemma message_result_cases:
  assumes "message opts env msg c = Inr (r, c1, effs)"
  obtains (ignored) "r = False" "c1 = c" "effs = []"
  | (disabled) guild member where "admission opts env msg = Inr (Some (guild, member))"
      "\<not> ipwarnEnabled opts" "r = False" "c1 = pushed msg guild c" "effs = []"
  | (quiet) guild member where "admission opts env msg = Inr (Some (guild, member))"
      "ipwarnEnabled opts" "selectedNow opts env msg guild c = None"
      "r = False" "c1 = pushed msg guild c" "effs = ipwarn msg"
  | (fired) guild member t sp where "admission opts env msg = Inr (Some (guild, member))"
      "ipwarnEnabled opts" "selectedNow opts env msg guild c = Some t"
      "r = True" "c1 = fst (sanctionOf opts env msg member t sp (pushed msg guild c))"
      "effs = ipwarn msg @ fst (snd (sanctionOf opts env msg member t sp (pushed msg guild c)))"
proof (cases "admission opts env msg")
  case (Inl e)
  then show ?thesis using assms by (simp add: message_rejected)
next
  case (Inr x)
  show ?thesis
  proof (cases x)
    case None
    then show ?thesis using Inr assms ignored by (simp add: message_ignored)
  next
    case (Some p)
    obtain guild member where p: "p = (guild, member)" by (cases p) auto
    have adm: "admission opts env msg = Inr (Some (guild, member))"
      using Inr Some p by simp
    have d: "detect opts env msg guild member c = (r, c1, effs)"
      using assms message_admitted [OF adm] by simp
    show ?thesis
    proof (cases "ipwarnEnabled opts")
      case False
      then show ?thesis using d adm disabled by (simp add: detect_disabled)
    next
      case True
      show ?thesis
      proof (cases "selectedNow opts env msg guild c")
        case None
        then show ?thesis using d adm True quiet by (simp add: detect_select fired_def)
      next
        case (Some t)
        define sp where "sp =
          (if int (length (spamNow opts env msg guild c)) \<ge> countThreshold opts t
           then spamNow opts env msg guild c
           else duplicatesNow opts msg guild c @ otherNow opts msg guild c)"
        have fr: "fired opts env msg member (spamNow opts env msg guild c)
            (duplicatesNow opts msg guild c) (otherNow opts msg guild c)
            (pushed msg guild c) (ipwarn msg) (Some t) = (r, c1, effs)"
          using d True Some by (simp add: detect_select)
        have "r = True"
          using arg_cong [OF fr, of fst] by (simp add: fired_fst)
        moreover have "c1 = fst (sanctionOf opts env msg member t sp (pushed msg guild c))"
          using arg_cong [OF fr, of "\<lambda>x. fst (snd x)"] by (simp add: fired_cache sp_def)
        moreover have "effs =
            ipwarn msg @ fst (snd (sanctionOf opts env msg member t sp (pushed msg guild c)))"
          using arg_cong [OF fr, of "\<lambda>x. snd (snd x)"] by (simp add: fired_effects sp_def)
        ultimately show ?thesis
          using fired [OF adm True Some] by blast
      qed
    qed
  qed
qed

lemma selected_Ban_not_banned:
  assumes "selectedNow opts env msg guild c = Some Ban"
  shows "user_id (msg_author msg) \<notin> set (bannedUsers c)"
proof -
  have "tierMet opts (pushed msg guild c) (user_id (msg_author msg))
      (int (length (spamNow opts env msg guild c)))
      (int (length (duplicatesNow opts msg guild c))) Ban"
    using assms by (simp add: selectedNow_def selectTier_def split: if_splits)
  then show ?thesis by (simp add: tierMet_def eligible_def pushed_def)
qed

lemma sanction_no_ban_effect:
  "t \<noteq> Ban \<Longrightarrow> \<not> list_ex isBanEffect (fst (snd (sanctionOf opts env msg member t sp c)))"
  by (cases t)
     (simp_all add: sanctionOf_def muteUser_def kickUser_def warnUser_def Let_def
        split: option.splits)

lemma ipwarn_no_ban_effect: "\<not> list_ex isBanEffect (ipwarn msg)"
  by (simp add: ipwarn_def)

lemma step_keeps_ban:
  assumes "a \<in> set (bannedUsers c)" and "message opts env msg c = Inr (r, c1, effs)"
  shows "count_list (bannedUsers c1) a = count_list (bannedUsers c) a"
    and "user_id (msg_author msg) = a \<Longrightarrow> \<not> list_ex isBanEffect effs"
proof -
  show "count_list (bannedUsers c1) a = count_list (bannedUsers c) a"
    using assms(2)
  proof (cases rule: message_result_cases)
    case (fired guild member t sp)
    show ?thesis
    proof (cases "t = Ban")
      case True
      then have "user_id (msg_author msg) \<noteq> a"
        using selected_Ban_not_banned fired(3) assms(1) by blast
      then show ?thesis using fired(5) True by (simp add: sanction_bannedUsers pushed_def)
    next
      case False
      then show ?thesis using fired(5) by (simp add: sanction_bannedUsers pushed_def)
    qed
  qed (simp_all add: pushed_def)
  show "\<not> list_ex isBanEffect effs" if "user_id (msg_author msg) = a"
    using assms(2)
  proof (cases rule: message_result_cases)
    case (fired guild member t sp)
    have "t \<noteq> Ban"
      using selected_Ban_not_banned fired(3) assms(1) that by blast
    then show ?thesis
      using fired(6) sanction_no_ban_effect ipwarn_no_ban_effect by simp
  qed (simp_all add: ipwarn_no_ban_effect)
qed

lemma count_list_pos: "(a \<in> set xs) = (0 < count_list xs a)"
  by (induction xs) auto

lemma feed_keeps_ban:
  assumes "a \<in> set (bannedUsers cache)"
  shows "count_list (bannedUsers (fst (feed opts evs cache))) a =
           count_list (bannedUsers cache) a
         \<and> (\<forall>i < length evs. user_id (msg_author (snd (evs ! i))) = a \<longrightarrow>
               (\<forall>r effs. snd (feed opts evs cache) ! i = Inr (r, effs) \<longrightarrow>
                  \<not> list_ex isBanEffect effs))"
  using assms
proof (induction evs arbitrary: cache)
  case Nil
  then show ?case by simp
next
  case (Cons ev evs)
  obtain env msg where ev: "ev = (env, msg)" by (cases ev) auto
  show ?case
  proof (cases "message opts env msg cache")
    case (Inl e)
    have f: "feed opts (ev # evs) cache =
        (fst (feed opts evs cache), Inl e # snd (feed opts evs cache))"
      using ev Inl by (simp split: prod.splits)
    show ?thesis
      using Cons.IH [OF Cons.prems] f
      by (auto simp add: nth_Cons split: nat.splits)
  next
    case (Inr x)
    obtain r c1 effs where x: "x = (r, c1, effs)" by (cases x) auto
    have m: "message opts env msg cache = Inr (r, c1, effs)" using Inr x by simp
    have f: "feed opts (ev # evs) cache =
        (fst (feed opts evs c1), Inr (r, effs) # snd (feed opts evs c1))"
      using ev m by (simp split: prod.splits)
    have cnt: "count_list (bannedUsers c1) a = count_list (bannedUsers cache) a"
      using step_keeps_ban(1) [OF Cons.prems m] .
    then have in1: "a \<in> set (bannedUsers c1)"
      using Cons.prems by (simp add: count_list_pos)
    have hd: "user_id (msg_author msg) = a \<longrightarrow> \<not> list_ex isBanEffect effs"
      using step_keeps_ban(2) [OF Cons.prems m] by blast
    show ?thesis
      using Cons.IH [OF in1] f cnt hd ev
      by (auto simp add: nth_Cons split: nat.splits)
  qed
qed

text \<open>
  C3 as stated fails. The ban threshold is 1, so the first message bans the author and
  records the ban. The next messages of the same author are still checked against the
  lower tiers: the fourth message of the run reaches the warn threshold of 3 and the
  author is warned, with the ban still on record.
\<close>

theorem banned_author_still_sanctioned_counterexample:
  "feed (constructor (ipwarnOptions\<lparr>banThreshold_opt := Some 1\<rparr>))
     [(clock 1000, aliceSays ''m1'' ''a'' 1000), (clock 1001, aliceSays ''m2'' ''b'' 1001),
      (clock 1002, aliceSays ''m3'' ''c'' 1002), (clock 1003, aliceSays ''m4'' ''d'' 1003)]
     emptyCache =
   (\<lparr> messages = [cached ''m2'' ''g1'' ''alice'' ''b'' 1001,
                   cached ''m3'' ''g1'' ''alice'' ''c'' 1002,
                   cached ''m4'' ''g1'' ''alice'' ''d'' 1003],
       warnedUsers = [''alice''], kickedUsers = [], bannedUsers = [''alice''] \<rparr>,
    [Inr (True, [ClearSpamMessages [cached ''m1'' ''g1'' ''alice'' ''a'' 1000],
                 MemberBan ''alice'' 86400, SendActionMessage ''ban'',
                 Emit banAdd ''alice'' ''c1'' ''m1'']),
     Inr (False, []),
     Inr (False, []),
     Inr (True, [ClearSpamMessages [cached ''m4'' ''g1'' ''alice'' ''d'' 1003,
                                    cached ''m3'' ''g1'' ''alice'' ''c'' 1002,
                                    cached ''m2'' ''g1'' ''alice'' ''b'' 1001],
                 SendActionMessage ''warn'', Emit warnAdd ''alice'' ''c1'' ''m4''])])"
  by (simp add: message_defs example_defs ipwarnOptions_def)

text \<open>
  C3, amended. Once an author is recorded in \<open>bannedUsers\<close>, no later message event
  applies the ban tier to that author again: over any run of message events the author
  stays recorded, the ban method is never called for the author (each call would add one
  more entry) and no event of the author issues a ban call or a \<open>banAdd\<close> event. This
  lasts until \<open>reset\<close> empties the lists (or \<open>userleave\<close> removes the author, see C10).
  The mute, kick and warn tiers are not gated by the recorded ban; they stay subject to
  their own conditions.
\<close>

theorem recorded_ban_gates_ban_tier:
  assumes "a \<in> set (bannedUsers cache)"
  shows "a \<in> set (bannedUsers (fst (feed opts evs cache)))
         \<and> count_list (bannedUsers (fst (feed opts evs cache))) a =
             count_list (bannedUsers cache) a
         \<and> (\<forall>i < length evs. user_id (msg_author (snd (evs ! i))) = a \<longrightarrow>
               (\<forall>r effs. snd (feed opts evs cache) ! i = Inr (r, effs) \<longrightarrow>
                  \<not> list_ex isBanEffect effs))
         \<and> a \<notin> set (bannedUsers (reset (fst (feed opts evs cache))))"
  using feed_keeps_ban [OF assms, of opts evs] assms
  by (simp add: count_list_pos reset_def)

theorem recorded_ban_gates_ban_tier_witness:
  "''alice'' \<in> set (bannedUsers
      \<lparr> messages = [], warnedUsers = [], kickedUsers = [], bannedUsers = [''alice''] \<rparr>)
   \<and> banThreshold (constructor (ipwarnOptions\<lparr>banThreshold_opt := Some 1\<rparr>)) = 1
   \<and> feed (constructor (ipwarnOptions\<lparr>banThreshold_opt := Some 1\<rparr>))
       [(clock 1001, aliceSays ''m2'' ''b'' 1001)]
       \<lparr> messages = [], warnedUsers = [], kickedUsers = [], bannedUsers = [''alice''] \<rparr> =
     (\<lparr> messages = [cached ''m2'' ''g1'' ''alice'' ''b'' 1001], warnedUsers = [],
        kickedUsers = [], bannedUsers = [''alice''] \<rparr>, [Inr (False, [])])
   \<and> count_list (bannedUsers (fst (feed (constructor (ipwarnOptions\<lparr>banThreshold_opt := Some 1\<rparr>))
       [(clock 1001, aliceSays ''m2'' ''b'' 1001)]
       \<lparr> messages = [], warnedUsers = [], kickedUsers = [], bannedUsers = [''alice''] \<rparr>)))
       ''alice'' = 1"
proof -
  let ?c = "\<lparr> messages = [], warnedUsers = [], kickedUsers = [], bannedUsers = [''alice''] \<rparr>"
  have h: "''alice'' \<in> set (bannedUsers ?c)" by simp
  have f: "feed (constructor (ipwarnOptions\<lparr>banThreshold_opt := Some 1\<rparr>))
       [(clock 1001, aliceSays ''m2'' ''b'' 1001)] ?c =
     (\<lparr> messages = [cached ''m2'' ''g1'' ''alice'' ''b'' 1001], warnedUsers = [],
        kickedUsers = [], bannedUsers = [''alice''] \<rparr>, [Inr (False, [])])"
    by (simp add: message_defs example_defs ipwarnOptions_def)
  have t: "banThreshold (constructor (ipwarnOptions\<lparr>banThreshold_opt := Some 1\<rparr>)) = 1"
    by (simp add: example_defs ipwarnOptions_def)
  have "count_list (bannedUsers (fst (feed (constructor (ipwarnOptions\<lparr>banThreshold_opt := Some 1\<rparr>))
       [(clock 1001, aliceSays ''m2'' ''b'' 1001)] ?c))) ''alice'' = count_list (bannedUsers ?c) ''alice''"
    using recorded_ban_gates_ban_tier [OF h,
        of "constructor (ipwarnOptions\<lparr>banThreshold_opt := Some 1\<rparr>)"
           "[(clock 1001, aliceSays ''m2'' ''b'' 1001)]"]
    by blast
  then show ?thesis using h f t by simp
qed

section \<open>C1: three messages and a warn threshold of three\<close>

text \<open>
  C1. The claim: with \<open>warnThreshold = 3\<close> and \<open>maxInterval = 2000\<close>, an admitted author
  who sends three messages within 1500 ms in one guild gets true from \<^verbatim>\<open>message\<close> on the
  third, exactly one \<open>warnAdd\<close> event, and is recorded as warned. The code fails it on this
  run. The options are the constructor's defaults with the two values of the scenario, so
  \<open>ipwarnEnabled\<close> is false; a new author sends three messages within 1500 ms, each handled
  at the time it was sent; the third call returns false like the first two, nothing is
  emitted and nobody is recorded as warned. The same run with \<open>ipwarnEnabled\<close> set is the
  scenario of the claim: false, false, true, one \<open>warnAdd\<close>, the author in \<open>warnedUsers\<close>.
\<close>

theorem third_message_returns_false_by_default:
  "ipwarnEnabled (constructor (noOptions\<lparr>warnThreshold_opt := Some 3,
       maxInterval_opt := Some 2000\<rparr>)) = False
   \<and> feed (constructor (noOptions\<lparr>warnThreshold_opt := Some 3, maxInterval_opt := Some 2000\<rparr>))
     [(clock 1000, aliceSays ''m1'' ''a'' 1000), (clock 1700, aliceSays ''m2'' ''b'' 1700),
      (clock 2500, aliceSays ''m3'' ''c'' 2500)]
     emptyCache =
   (\<lparr> messages = [cached ''m1'' ''g1'' ''alice'' ''a'' 1000,
                   cached ''m2'' ''g1'' ''alice'' ''b'' 1700,
                   cached ''m3'' ''g1'' ''alice'' ''c'' 2500],
       warnedUsers = [], kickedUsers = [], bannedUsers = [] \<rparr>,
    [Inr (False, []), Inr (False, []), Inr (False, [])])
   \<and> feed (constructor (ipwarnOptions\<lparr>warnThreshold_opt := Some 3,
          maxInterval_opt := Some 2000\<rparr>))
     [(clock 1000, aliceSays ''m1'' ''a'' 1000), (clock 1700, aliceSays ''m2'' ''b'' 1700),
      (clock 2500, aliceSays ''m3'' ''c'' 2500)]
     emptyCache =
   (\<lparr> messages = [cached ''m1'' ''g1'' ''alice'' ''a'' 1000,
                   cached ''m2'' ''g1'' ''alice'' ''b'' 1700,
                   cached ''m3'' ''g1'' ''alice'' ''c'' 2500],
       warnedUsers = [''alice''], kickedUsers = [], bannedUsers = [] \<rparr>,
    [Inr (False, []), Inr (False, []),
     Inr (True, [ClearSpamMessages [cached ''m3'' ''g1'' ''alice'' ''c'' 2500,
                                    cached ''m2'' ''g1'' ''alice'' ''b'' 1700,
                                    cached ''m1'' ''g1'' ''alice'' ''a'' 1000],
                 SendActionMessage ''warn'', Emit warnAdd ''alice'' ''c1'' ''m3''])])"
  by (simp add: message_defs example_defs ipwarnOptions_def)

end
